theory Spec2Isabelle
  imports Main "HOL-Library.Word"
begin

section \<open>Values exchanged with the collaborators\<close>

text \<open>
  The file \<^verbatim>\<open>pkg/networkservice/up/client.go\<close> holds two chain elements: \<^verbatim>\<open>upClient\<close>
  (package \<^verbatim>\<open>up\<close>) and \<^verbatim>\<open>wireguardPeerServer\<close> (package \<^verbatim>\<open>peer\<close>). Everything they call
  is a collaborator that lives elsewhere: the continuation \<^verbatim>\<open>next.Client(ctx)\<close> /
  \<^verbatim>\<open>next.Server(ctx)\<close>, the payload actions \<^verbatim>\<open>up\<close>, \<^verbatim>\<open>initFunc\<close>, \<^verbatim>\<open>createPeer\<close>, \<^verbatim>\<open>delPeer\<close>,
  the role lookup \<^verbatim>\<open>metadata.IsClient\<close>, \<^verbatim>\<open>postpone.ContextWithValues\<close> and \<^verbatim>\<open>errors.Wrapf\<close>.
  The collaborators with an effect are parameters of the model (the record \<open>env\<close> below):
  functions on an arbitrary world \<open>'w\<close>. A Go pointer that may be \<^verbatim>\<open>nil\<close> is an \<open>option\<close>,
  and a Go result pair stays a pair: nothing in the types forbids \<^verbatim>\<open>(nil, nil)\<close> or a
  Connection together with an error.
\<close>

datatype connection = Connection string

datatype request = NetworkServiceRequest "connection option"

datatype empty = Empty

type_synonym callOption = nat

subsection \<open>Errors\<close>

text \<open>
  An \<^verbatim>\<open>error\<close> is either a plain error with its message or the result of
  \<^verbatim>\<open>errors.Wrapf(cause, format, args...)\<close>: the cause is kept and the formatted message is
  put in front of it. \<^verbatim>\<open>Wrapf\<close> of a \<^verbatim>\<open>nil\<close> error is \<^verbatim>\<open>nil\<close>.
\<close>

datatype error = Err string | WithMessage error string

fun Error :: "error \<Rightarrow> string" where
  "Error (Err s) = s"
| "Error (WithMessage cause msg) = msg @ '': '' @ Error cause"

fun Unwrap :: "error \<Rightarrow> error option" where
  "Unwrap (Err s) = None"
| "Unwrap (WithMessage cause msg) = Some cause"

definition Wrapf :: "error option \<Rightarrow> string \<Rightarrow> error option" where
  "Wrapf err msg = (case err of None \<Rightarrow> None | Some e \<Rightarrow> Some (WithMessage e msg))"

text \<open>The format \<^verbatim>\<open>"connection closed with error: %s"\<close> applied to one string.\<close>

definition closedWithError :: "string \<Rightarrow> string" where
  "closedWithError s = ''connection closed with error: '' @ s"

subsection \<open>Contexts\<close>

text \<open>
  A Context is the caller's live Context, or the Context that the resolver returned by
  \<^verbatim>\<open>postpone.ContextWithValues(ctx)\<close> produces: it carries the values of \<open>ctx\<close> (among them the
  continuation that \<^verbatim>\<open>next.Client\<close> / \<^verbatim>\<open>next.Server\<close> read) under a cancellation of its
  own. Deadlines are not modelled.
\<close>

datatype Context = Live nat | Postponed Context

definition ContextWithValues :: "Context \<Rightarrow> unit \<Rightarrow> Context" where
  "ContextWithValues cx = (\<lambda>_. Postponed cx)"

section \<open>The elements\<close>

record ('v, 'f) upClient =
  ctx :: Context
  vppConn :: 'v
  loadIfIndex :: 'f
  inited :: "32 word"

record 'v wireguardPeerServer =
  vppConn :: 'v

text \<open>
  The argument of \<^verbatim>\<open>metadata.IsClient(in interface{})\<close>: one of the two elements. The lookup
  receives the element and nothing else (no context, no Connection), so it is a function of
  the element.
\<close>

datatype ('v, 'f) element =
    UpClient "('v, 'f) upClient"
  | WireguardPeerServer "'v wireguardPeerServer"

section \<open>Observable events\<close>

text \<open>
  Each call of a collaborator is recorded, with its arguments and with what it returned,
  at the end of a trace. \<open>MutexLock\<close> and \<open>MutexUnlock\<close> are the calls on \<^verbatim>\<open>initMutex\<close>;
  \<open>Capture\<close> is \<^verbatim>\<open>postpone.ContextWithValues(ctx)\<close>, \<open>Resolve\<close> is the call of the resolver
  (with the Context it returned) and \<open>Cancel\<close> the deferred \<^verbatim>\<open>cancelClose()\<close>.
\<close>

datatype ('v, 'f) event =
    MutexLock
  | MutexUnlock
  | InitFunc Context 'v "error option"
  | Capture Context
  | Resolve Context
  | Cancel Context
  | ClientRequest Context request "callOption list" "connection option" "error option"
  | ClientClose Context "connection option" "callOption list" "empty option" "error option"
  | Up Context 'v 'f bool "error option"
  | ServerRequest Context request "connection option" "error option"
  | ServerClose Context "connection option" "empty option" "error option"
  | CreatePeer Context "connection option" 'v bool "error option"
  | DelPeer Context "connection option" 'v bool "error option"

type_synonym ('w, 'v, 'f) state = "('v, 'f) event list \<times> 'w"

record ('w, 'v, 'f) env =
  initFunc :: "Context \<Rightarrow> 'v \<Rightarrow> 'w \<Rightarrow> error option \<times> 'w"
  up :: "Context \<Rightarrow> 'v \<Rightarrow> 'f \<Rightarrow> bool \<Rightarrow> 'w \<Rightarrow> error option \<times> 'w"
  nextClientRequest ::
    "Context \<Rightarrow> request \<Rightarrow> callOption list \<Rightarrow> 'w \<Rightarrow> (connection option \<times> error option) \<times> 'w"
  nextClientClose ::
    "Context \<Rightarrow> connection option \<Rightarrow> callOption list \<Rightarrow> 'w \<Rightarrow> (empty option \<times> error option) \<times> 'w"
  nextServerRequest ::
    "Context \<Rightarrow> request \<Rightarrow> 'w \<Rightarrow> (connection option \<times> error option) \<times> 'w"
  nextServerClose ::
    "Context \<Rightarrow> connection option \<Rightarrow> 'w \<Rightarrow> (empty option \<times> error option) \<times> 'w"
  createPeer :: "Context \<Rightarrow> connection option \<Rightarrow> 'v \<Rightarrow> bool \<Rightarrow> 'w \<Rightarrow> error option \<times> 'w"
  delPeer :: "Context \<Rightarrow> connection option \<Rightarrow> 'v \<Rightarrow> bool \<Rightarrow> 'w \<Rightarrow> error option \<times> 'w"
  IsClient :: "('v, 'f) element \<Rightarrow> bool"

definition emit :: "('v, 'f) event \<Rightarrow> ('w, 'v, 'f) state \<Rightarrow> ('w, 'v, 'f) state" where
  "emit ev s = (fst s @ [ev], snd s)"

definition invoke ::
  "('r \<Rightarrow> ('v, 'f) event) \<Rightarrow> ('w \<Rightarrow> 'r \<times> 'w) \<Rightarrow> ('w, 'v, 'f) state \<Rightarrow> 'r \<times> ('w, 'v, 'f) state" where
  "invoke mk f s = (case f (snd s) of (r, w') \<Rightarrow> (r, (fst s @ [mk r], w')))"

section \<open>Package up: upClient\<close>

text \<open>
  A method on the pointer receiver \<^verbatim>\<open>u *upClient\<close> takes the struct and returns it, updated,
  next to its Go results. The calls run one at a time: \<^verbatim>\<open>initMutex\<close> is free when a call
  starts, so \<^verbatim>\<open>Lock\<close> returns at once and the second read of \<^verbatim>\<open>inited\<close> sees what the first
  one saw.
\<close>

definition upClient_init ::
  "('w, 'v, 'f) env \<Rightarrow> ('v, 'f) upClient \<Rightarrow> Context \<Rightarrow> ('w, 'v, 'f) state
     \<Rightarrow> error option \<times> ('v, 'f) upClient \<times> ('w, 'v, 'f) state" where
  "upClient_init e u cx s =
     (if 0 < inited u then (None, u, s)
      else
        let s1 = emit MutexLock s in
        if 0 < inited u then (None, u, emit MutexUnlock s1)
        else
          (case invoke (InitFunc cx (upClient.vppConn u)) (initFunc e cx (upClient.vppConn u)) s1 of
             (err, s2) \<Rightarrow>
               let u' = (if err = None then u\<lparr>inited := 1\<rparr> else u)
               in (err, u', emit MutexUnlock s2)))"

definition upClient_Close ::
  "('w, 'v, 'f) env \<Rightarrow> ('v, 'f) upClient \<Rightarrow> Context \<Rightarrow> connection option \<Rightarrow> callOption list
     \<Rightarrow> ('w, 'v, 'f) state
     \<Rightarrow> (empty option \<times> error option) \<times> ('v, 'f) upClient \<times> ('w, 'v, 'f) state" where
  "upClient_Close e u cx conn opts s =
     (case invoke (\<lambda>(r, err). ClientClose cx conn opts r err) (nextClientClose e cx conn opts) s of
        (res, s1) \<Rightarrow> (res, u, s1))"

definition upClient_Request ::
  "('w, 'v, 'f) env \<Rightarrow> ('v, 'f) upClient \<Rightarrow> Context \<Rightarrow> request \<Rightarrow> callOption list
     \<Rightarrow> ('w, 'v, 'f) state
     \<Rightarrow> (connection option \<times> error option) \<times> ('v, 'f) upClient \<times> ('w, 'v, 'f) state" where
  "upClient_Request e u cx rq opts s =
     (case upClient_init e u cx s of
        (Some err, u1, s1) \<Rightarrow> ((None, Some err), u1, s1)
      | (None, u1, s1) \<Rightarrow>
          let postponeCtxFunc = ContextWithValues cx;
              s2 = emit (Capture cx) s1
          in
          (case invoke (\<lambda>(c, err). ClientRequest cx rq opts c err) (nextClientRequest e cx rq opts) s2 of
             ((conn, Some err), s3) \<Rightarrow> ((None, Some err), u1, s3)
           | ((conn, None), s3) \<Rightarrow>
               let isClient = IsClient e (UpClient u1) in
               (case invoke (Up cx (upClient.vppConn u1) (loadIfIndex u1) isClient)
                       (up e cx (upClient.vppConn u1) (loadIfIndex u1) isClient) s3 of
                  (None, s4) \<Rightarrow> ((conn, None), u1, s4)
                | (Some err, s4) \<Rightarrow>
                    let closeCtx = postponeCtxFunc ();
                        s5 = emit (Resolve closeCtx) s4
                    in
                    (case upClient_Close e u1 closeCtx conn opts s5 of
                       ((_, closeErr), u2, s6) \<Rightarrow>
                         let err' = (case closeErr of
                                       None \<Rightarrow> Some err
                                     | Some ce \<Rightarrow> Wrapf (Some err) (closedWithError (Error ce)))
                         in ((None, err'), u2, emit (Cancel closeCtx) s6)))))"

section \<open>Package peer: wireguardPeerServer\<close>

definition wireguardPeerServer_Close ::
  "('w, 'v, 'f) env \<Rightarrow> 'v wireguardPeerServer \<Rightarrow> Context \<Rightarrow> connection option
     \<Rightarrow> ('w, 'v, 'f) state
     \<Rightarrow> (empty option \<times> error option) \<times> 'v wireguardPeerServer \<times> ('w, 'v, 'f) state" where
  "wireguardPeerServer_Close e srv cx conn s =
     (let isClient = IsClient e (WireguardPeerServer srv) in
      case invoke (DelPeer cx conn (wireguardPeerServer.vppConn srv) isClient)
             (delPeer e cx conn (wireguardPeerServer.vppConn srv) isClient) s of
        (_, s1) \<Rightarrow>
          (case invoke (\<lambda>(r, err). ServerClose cx conn r err) (nextServerClose e cx conn) s1 of
             (res, s2) \<Rightarrow> (res, srv, s2)))"

definition wireguardPeerServer_Request ::
  "('w, 'v, 'f) env \<Rightarrow> 'v wireguardPeerServer \<Rightarrow> Context \<Rightarrow> request
     \<Rightarrow> ('w, 'v, 'f) state
     \<Rightarrow> (connection option \<times> error option) \<times> 'v wireguardPeerServer \<times> ('w, 'v, 'f) state" where
  "wireguardPeerServer_Request e srv cx rq s =
     (let postponeCtxFunc = ContextWithValues cx;
          s1 = emit (Capture cx) s
      in
      case invoke (\<lambda>(c, err). ServerRequest cx rq c err) (nextServerRequest e cx rq) s1 of
        ((conn, Some err), s2) \<Rightarrow> ((None, Some err), srv, s2)
      | ((conn, None), s2) \<Rightarrow>
          let isClient = IsClient e (WireguardPeerServer srv) in
          (case invoke (CreatePeer cx conn (wireguardPeerServer.vppConn srv) isClient)
                  (createPeer e cx conn (wireguardPeerServer.vppConn srv) isClient) s2 of
             (None, s3) \<Rightarrow> ((conn, None), srv, s3)
           | (Some err, s3) \<Rightarrow>
               let closeCtx = postponeCtxFunc ();
                   s4 = emit (Resolve closeCtx) s3
               in
               (case wireguardPeerServer_Close e srv closeCtx conn s4 of
                  ((_, closeErr), srv1, s5) \<Rightarrow>
                    let err' = (case closeErr of
                                  None \<Rightarrow> Some err
                                | Some ce \<Rightarrow> Wrapf (Some err) (closedWithError (Error ce)))
                    in ((None, err'), srv1, emit (Cancel closeCtx) s5))))"

section \<open>Sequences of calls and what a call did\<close>

text \<open>Successive calls of \<^verbatim>\<open>u.init\<close> on one element, each call starting where the last one ended.\<close>

fun init_calls ::
  "('w, 'v, 'f) env \<Rightarrow> ('v, 'f) upClient \<Rightarrow> Context list \<Rightarrow> ('w, 'v, 'f) state
     \<Rightarrow> error option list \<times> ('v, 'f) upClient \<times> ('w, 'v, 'f) state" where
  "init_calls e u [] s = ([], u, s)"
| "init_calls e u (cx # cxs) s =
     (case upClient_init e u cx s of
        (err, u1, s1) \<Rightarrow>
          (case init_calls e u1 cxs s1 of (errs, u2, s2) \<Rightarrow> (err # errs, u2, s2)))"

text \<open>The Go results of a call, and the events in the state it returned.\<close>

definition result_of :: "'r \<times> 'u \<times> ('w, 'v, 'f) state \<Rightarrow> 'r" where
  "result_of x = fst x"

definition events_of :: "'r \<times> 'u \<times> ('w, 'v, 'f) state \<Rightarrow> ('v, 'f) event list" where
  "events_of x = fst (snd (snd x))"

text \<open>The calls that return an \<^verbatim>\<open>error\<close>.\<close>

fun failable :: "('v, 'f) event \<Rightarrow> bool" where
  "failable (InitFunc _ _ _) = True"
| "failable (ClientRequest _ _ _ _ _) = True"
| "failable (ClientClose _ _ _ _ _) = True"
| "failable (Up _ _ _ _ _) = True"
| "failable (ServerRequest _ _ _ _) = True"
| "failable (ServerClose _ _ _ _) = True"
| "failable (CreatePeer _ _ _ _ _) = True"
| "failable (DelPeer _ _ _ _ _) = True"
| "failable _ = False"

fun isInitFunc :: "('v, 'f) event \<Rightarrow> bool" where
  "isInitFunc (InitFunc _ _ _) = True"
| "isInitFunc _ = False"

fun isCapture :: "Context \<Rightarrow> ('v, 'f) event \<Rightarrow> bool" where
  "isCapture cx (Capture c) = (c = cx)"
| "isCapture cx _ = False"

text \<open>The events of a call that come before the capture of \<open>cx\<close> (all of them, if there is none).\<close>

definition before_capture :: "Context \<Rightarrow> ('v, 'f) event list \<Rightarrow> ('v, 'f) event list" where
  "before_capture cx evs = takeWhile (\<lambda>ev. \<not> isCapture cx ev) evs"

definition captured_first :: "Context \<Rightarrow> ('v, 'f) event list \<Rightarrow> bool" where
  "captured_first cx evs = list_all (\<lambda>ev. \<not> failable ev) (before_capture cx evs)"

definition only_init_before_capture :: "Context \<Rightarrow> ('v, 'f) event list \<Rightarrow> bool" where
  "only_init_before_capture cx evs =
     list_all (\<lambda>ev. \<not> failable ev \<or> isInitFunc ev) (before_capture cx evs)"

text \<open>The setup action of an element, failed; the continuation, returning \<open>c\<close> and no error.\<close>

fun setupFailed :: "('v, 'f) event \<Rightarrow> bool" where
  "setupFailed (Up _ _ _ _ (Some _)) = True"
| "setupFailed (CreatePeer _ _ _ _ (Some _)) = True"
| "setupFailed _ = False"

fun isSetup :: "('v, 'f) event \<Rightarrow> bool" where
  "isSetup (Up _ _ _ _ _) = True"
| "isSetup (CreatePeer _ _ _ _ _) = True"
| "isSetup _ = False"

fun continuationGave :: "connection option \<Rightarrow> ('v, 'f) event \<Rightarrow> bool" where
  "continuationGave c (ClientRequest _ _ _ c' None) = (c' = c)"
| "continuationGave c (ServerRequest _ _ c' None) = (c' = c)"
| "continuationGave c _ = False"

fun isContinuationRequest :: "('v, 'f) event \<Rightarrow> bool" where
  "isContinuationRequest (ClientRequest _ _ _ _ _) = True"
| "isContinuationRequest (ServerRequest _ _ _ _) = True"
| "isContinuationRequest _ = False"

text \<open>A call that is part of a Close: the local undo or the continuation's Close.\<close>

fun isCloseCall :: "('v, 'f) event \<Rightarrow> bool" where
  "isCloseCall (ClientClose _ _ _ _ _) = True"
| "isCloseCall (ServerClose _ _ _ _) = True"
| "isCloseCall (DelPeer _ _ _ _ _) = True"
| "isCloseCall _ = False"

fun continuationClosed :: "Context \<Rightarrow> ('v, 'f) event \<Rightarrow> bool" where
  "continuationClosed cx (ClientClose c _ _ _ _) = (c = cx)"
| "continuationClosed cx (ServerClose c _ _ _) = (c = cx)"
| "continuationClosed cx _ = False"

text \<open>The directionality handed to \<^verbatim>\<open>createPeer\<close> or \<^verbatim>\<open>delPeer\<close>.\<close>

fun peerRole :: "('v, 'f) event \<Rightarrow> bool option" where
  "peerRole (CreatePeer _ _ _ b _) = Some b"
| "peerRole (DelPeer _ _ _ b _) = Some b"
| "peerRole _ = None"

text \<open>
  What the claim on results asks of a pair \<^verbatim>\<open>(*Connection, error)\<close>: exactly one of the two
  is \<^verbatim>\<open>nil\<close>.
\<close>

definition connection_xor_error :: "connection option \<times> error option \<Rightarrow> bool" where
  "connection_xor_error r = ((fst r \<noteq> None \<and> snd r = None) \<or> (fst r = None \<and> snd r \<noteq> None))"

section \<open>A concrete environment\<close>

text \<open>
  The world is a counter of the calls made so far. \<^verbatim>\<open>initFunc\<close> fails while fewer than \<open>k\<close>
  calls were made; the continuation's Request answers with the Connection of the request
  (as the end of a chain does) unless it fails; the other calls return the given errors.
  \<^verbatim>\<open>IsClient\<close> tells the client element from the server element.
\<close>

definition GetConnection :: "request \<Rightarrow> connection option" where
  "GetConnection rq = (case rq of NetworkServiceRequest c \<Rightarrow> c)"

definition demoEnv ::
  "nat \<Rightarrow> error option \<Rightarrow> error option \<Rightarrow> error option \<Rightarrow> error option \<Rightarrow> (nat, nat, nat) env" where
  "demoEnv k reqErr setupErr delErr closeErr =
     \<lparr> initFunc = (\<lambda>cx v w. (if w < k then Some (Err ''vpp not ready'') else None, Suc w)),
       up = (\<lambda>cx v f b w. (setupErr, Suc w)),
       nextClientRequest =
         (\<lambda>cx rq opts w. ((if reqErr = None then GetConnection rq else None, reqErr), Suc w)),
       nextClientClose =
         (\<lambda>cx conn opts w. ((if closeErr = None then Some Empty else None, closeErr), Suc w)),
       nextServerRequest =
         (\<lambda>cx rq w. ((if reqErr = None then GetConnection rq else None, reqErr), Suc w)),
       nextServerClose =
         (\<lambda>cx conn w. ((if closeErr = None then Some Empty else None, closeErr), Suc w)),
       createPeer = (\<lambda>cx conn v b w. (setupErr, Suc w)),
       delPeer = (\<lambda>cx conn v b w. (delErr, Suc w)),
       IsClient = (\<lambda>el. case el of UpClient _ \<Rightarrow> True | WireguardPeerServer _ \<Rightarrow> False) \<rparr>"

definition demoClient :: "(nat, nat) upClient" where
  "demoClient = \<lparr> ctx = Live 0, vppConn = 7, loadIfIndex = 3, inited = 0 \<rparr>"

definition demoServer :: "nat wireguardPeerServer" where
  "demoServer = \<lparr> vppConn = 7 \<rparr>"

definition demoRequest :: request where
  "demoRequest = NetworkServiceRequest (Some (Connection ''conn-1''))"

definition nilRequest :: request where
  "nilRequest = NetworkServiceRequest None"

section \<open>Properties of a result and of the events of a call\<close>

text \<open>
  Either the Connection that the continuation returned, with no error, or no Connection and
  an error.
\<close>

definition established_or_failed ::
  "connection option \<times> error option \<Rightarrow> ('v, 'f) event list \<Rightarrow> bool" where
  "established_or_failed r evs =
     ((snd r = None \<and> list_ex (continuationGave (fst r)) evs) \<or> (fst r = None \<and> snd r \<noteq> None))"

text \<open>
  Where the setup action failed, the continuation's Close was called on the postponed
  context and the call returned no Connection and an error.
\<close>

definition rolled_back ::
  "Context \<Rightarrow> connection option \<times> error option \<Rightarrow> ('v, 'f) event list \<Rightarrow> bool" where
  "rolled_back cx r evs =
     (if list_ex setupFailed evs
      then list_ex (continuationClosed (Postponed cx)) evs \<and> fst r = None \<and> snd r \<noteq> None
      else True)"

definition no_setup_no_close :: "('v, 'f) event list \<Rightarrow> bool" where
  "no_setup_no_close evs = list_all (\<lambda>ev. \<not> isSetup ev \<and> \<not> isCloseCall ev) evs"

section \<open>The paths of a call\<close>

lemma emit_pair: "emit ev (tr, w) = (tr @ [ev], w)"
  by (simp add: emit_def)

lemma invoke_pair: "f w = (r, w') \<Longrightarrow> invoke mk f (tr, w) = (r, (tr @ [mk r], w'))"
  by (simp add: invoke_def)

lemma Postponed_neq: "Postponed cx \<noteq> cx"
  by (induction cx) auto

lemma upClient_init_inited:
  "0 < inited u \<Longrightarrow> upClient_init e u cx s = (None, u, s)"
  by (simp add: upClient_init_def)

lemma upClient_init_run:
  assumes "inited u = 0" and "initFunc e cx (upClient.vppConn u) w = (err, w1)"
  shows "upClient_init e u cx (tr, w) =
           (err, (if err = None then u\<lparr>inited := 1\<rparr> else u),
            (tr @ [MutexLock, InitFunc cx (upClient.vppConn u) err, MutexUnlock], w1))"
  using assms by (simp add: upClient_init_def emit_pair invoke_pair Let_def)

lemma upClient_Close_run:
  assumes "nextClientClose e cx conn opts w = ((r, cerr), w1)"
  shows "upClient_Close e u cx conn opts (tr, w) =
           ((r, cerr), u, (tr @ [ClientClose cx conn opts r cerr], w1))"
  using assms by (simp add: upClient_Close_def invoke_pair)

lemma wireguardPeerServer_Close_run:
  assumes "delPeer e cx conn (wireguardPeerServer.vppConn srv) (IsClient e (WireguardPeerServer srv)) w = (derr, w1)"
    and "nextServerClose e cx conn w1 = ((r, cerr), w2)"
  shows "wireguardPeerServer_Close e srv cx conn (tr, w) =
           ((r, cerr), srv,
            (tr @ [DelPeer cx conn (wireguardPeerServer.vppConn srv) (IsClient e (WireguardPeerServer srv)) derr,
                   ServerClose cx conn r cerr], w2))"
  using assms by (simp add: wireguardPeerServer_Close_def invoke_pair Let_def)


lemma upClient_Request_init_failed:
  assumes "upClient_init e u cx s = (Some err, u1, s1)"
  shows "upClient_Request e u cx rq opts s = ((None, Some err), u1, s1)"
  using assms by (simp add: upClient_Request_def)

lemma upClient_Request_next_failed:
  assumes "upClient_init e u cx s = (None, u1, (tr1, w1))"
    and "nextClientRequest e cx rq opts w1 = ((conn, Some err), w2)"
  shows "upClient_Request e u cx rq opts s =
           ((None, Some err), u1, (tr1 @ [Capture cx, ClientRequest cx rq opts conn (Some err)], w2))"
  using assms by (simp add: upClient_Request_def emit_pair invoke_pair Let_def)

lemma upClient_Request_ok:
  assumes "upClient_init e u cx s = (None, u1, (tr1, w1))"
    and "nextClientRequest e cx rq opts w1 = ((conn, None), w2)"
    and "up e cx (upClient.vppConn u1) (loadIfIndex u1) (IsClient e (UpClient u1)) w2 = (None, w3)"
  shows "upClient_Request e u cx rq opts s =
           ((conn, None), u1,
            (tr1 @ [Capture cx, ClientRequest cx rq opts conn None,
                    Up cx (upClient.vppConn u1) (loadIfIndex u1) (IsClient e (UpClient u1)) None], w3))"
  using assms by (simp add: upClient_Request_def emit_pair invoke_pair Let_def)

lemma upClient_Request_rollback:
  assumes "upClient_init e u cx s = (None, u1, (tr1, w1))"
    and "nextClientRequest e cx rq opts w1 = ((conn, None), w2)"
    and "up e cx (upClient.vppConn u1) (loadIfIndex u1) (IsClient e (UpClient u1)) w2 = (Some err, w3)"
    and "upClient_Close e u1 (Postponed cx) conn opts
           (tr1 @ [Capture cx, ClientRequest cx rq opts conn None,
                   Up cx (upClient.vppConn u1) (loadIfIndex u1) (IsClient e (UpClient u1)) (Some err),
                   Resolve (Postponed cx)], w3) = ((r, closeErr), u2, s6)"
  shows "upClient_Request e u cx rq opts s =
           ((None, Some (case closeErr of None \<Rightarrow> err
                         | Some ce \<Rightarrow> WithMessage err (''connection closed with error: '' @ Error ce))),
            u2, emit (Cancel (Postponed cx)) s6)"
  using assms
  by (simp add: upClient_Request_def emit_pair invoke_pair Let_def ContextWithValues_def
        Wrapf_def closedWithError_def split: option.splits)

lemma wireguardPeerServer_Request_next_failed:
  assumes "nextServerRequest e cx rq w = ((conn, Some err), w1)"
  shows "wireguardPeerServer_Request e srv cx rq (tr, w) =
           ((None, Some err), srv, (tr @ [Capture cx, ServerRequest cx rq conn (Some err)], w1))"
  using assms by (simp add: wireguardPeerServer_Request_def emit_pair invoke_pair Let_def)

lemma wireguardPeerServer_Request_ok:
  assumes "nextServerRequest e cx rq w = ((conn, None), w1)"
    and "createPeer e cx conn (wireguardPeerServer.vppConn srv) (IsClient e (WireguardPeerServer srv)) w1 = (None, w2)"
  shows "wireguardPeerServer_Request e srv cx rq (tr, w) =
           ((conn, None), srv,
            (tr @ [Capture cx, ServerRequest cx rq conn None,
                   CreatePeer cx conn (wireguardPeerServer.vppConn srv) (IsClient e (WireguardPeerServer srv)) None], w2))"
  using assms by (simp add: wireguardPeerServer_Request_def emit_pair invoke_pair Let_def)

lemma wireguardPeerServer_Request_rollback:
  assumes "nextServerRequest e cx rq w = ((conn, None), w1)"
    and "createPeer e cx conn (wireguardPeerServer.vppConn srv) (IsClient e (WireguardPeerServer srv)) w1 = (Some err, w2)"
    and "wireguardPeerServer_Close e srv (Postponed cx) conn
           (tr @ [Capture cx, ServerRequest cx rq conn None,
                  CreatePeer cx conn (wireguardPeerServer.vppConn srv) (IsClient e (WireguardPeerServer srv)) (Some err),
                  Resolve (Postponed cx)], w2) = ((r, closeErr), srv1, s5)"
  shows "wireguardPeerServer_Request e srv cx rq (tr, w) =
           ((None, Some (case closeErr of None \<Rightarrow> err
                         | Some ce \<Rightarrow> WithMessage err (''connection closed with error: '' @ Error ce))),
            srv1, emit (Cancel (Postponed cx)) s5)"
  using assms
  by (simp add: wireguardPeerServer_Request_def emit_pair invoke_pair Let_def ContextWithValues_def
        Wrapf_def closedWithError_def split: option.splits)

lemma upClient_init_events:
  "events_of (upClient_init e u cx (tr, w)) =
     tr @ (if 0 < inited u then []
           else [MutexLock, InitFunc cx (upClient.vppConn u)
                   (fst (initFunc e cx (upClient.vppConn u) w)), MutexUnlock])"
  by (simp add: upClient_init_def events_of_def emit_def invoke_def Let_def split: prod.splits)

lemma upClient_init_error:
  assumes "upClient_init e u cx (tr, w) = (Some err, u1, s1)"
  shows "u1 = u \<and> inited u = 0 \<and>
         fst s1 = tr @ [MutexLock, InitFunc cx (upClient.vppConn u) (Some err), MutexUnlock]"
  using assms
  by (auto simp: upClient_init_def emit_def invoke_def Let_def word_gt_0
      split: prod.splits if_splits)

lemma init_calls_inited:
  "0 < inited u \<Longrightarrow> init_calls e u cxs s = (replicate (length cxs) None, u, s)"
  by (induction cxs) (simp_all add: upClient_init_inited)

lemma wg_Request_role:
  "ev \<in> set (events_of (wireguardPeerServer_Request e srv cx rq ([], w))) \<Longrightarrow>
   peerRole ev = Some b \<Longrightarrow> b = IsClient e (WireguardPeerServer srv)"
  by (auto simp: wireguardPeerServer_Request_def wireguardPeerServer_Close_def events_of_def
      emit_def invoke_def Let_def split: prod.splits option.splits)

lemma wg_Close_role:
  "ev \<in> set (events_of (wireguardPeerServer_Close e srv cx conn ([], w))) \<Longrightarrow>
   peerRole ev = Some b \<Longrightarrow> b = IsClient e (WireguardPeerServer srv)"
  by (auto simp: wireguardPeerServer_Close_def events_of_def
      emit_def invoke_def Let_def split: prod.splits option.splits)


lemma upClient_init_cases [case_names inited run]:
  obtains "0 < inited u" and "upClient_init e u cx (tr, w) = (None, u, (tr, w))"
  | err w1 where "inited u = 0" and "initFunc e cx (upClient.vppConn u) w = (err, w1)"
      and "upClient_init e u cx (tr, w) =
             (err, (if err = None then u\<lparr>inited := 1\<rparr> else u),
              (tr @ [MutexLock, InitFunc cx (upClient.vppConn u) err, MutexUnlock], w1))"
proof (cases "0 < inited u")
  case True
  then show ?thesis using that(1) by (simp add: upClient_init_inited)
next
  case False
  then have z: "inited u = 0" by (simp add: word_gt_0)
  obtain err w1 where i: "initFunc e cx (upClient.vppConn u) w = (err, w1)"
    by (cases "initFunc e cx (upClient.vppConn u) w")
  show ?thesis using that(2) [OF z i] upClient_init_run [OF z i] by simp
qed

lemma upClient_Request_cases [case_names init_failed next_failed ok rollback]:
  obtains
    err u1 ie w1 where
      "upClient_init e u cx (tr, w) = (Some err, u1, (tr @ ie, w1))"
      "ie = [MutexLock, InitFunc cx (upClient.vppConn u) (Some err), MutexUnlock]"
      "upClient_Request e u cx rq opts (tr, w) = ((None, Some err), u1, (tr @ ie, w1))"
  | u1 ie w1 conn err w2 where
      "upClient_init e u cx (tr, w) = (None, u1, (tr @ ie, w1))"
      "ie = [] \<or> ie = [MutexLock, InitFunc cx (upClient.vppConn u) None, MutexUnlock]"
      "nextClientRequest e cx rq opts w1 = ((conn, Some err), w2)"
      "upClient_Request e u cx rq opts (tr, w) =
         ((None, Some err), u1, (tr @ ie @ [Capture cx, ClientRequest cx rq opts conn (Some err)], w2))"
  | u1 ie w1 conn w2 w3 where
      "upClient_init e u cx (tr, w) = (None, u1, (tr @ ie, w1))"
      "ie = [] \<or> ie = [MutexLock, InitFunc cx (upClient.vppConn u) None, MutexUnlock]"
      "nextClientRequest e cx rq opts w1 = ((conn, None), w2)"
      "up e cx (upClient.vppConn u1) (loadIfIndex u1) (IsClient e (UpClient u1)) w2 = (None, w3)"
      "upClient_Request e u cx rq opts (tr, w) =
         ((conn, None), u1,
          (tr @ ie @ [Capture cx, ClientRequest cx rq opts conn None,
                      Up cx (upClient.vppConn u1) (loadIfIndex u1) (IsClient e (UpClient u1)) None], w3))"
  | u1 ie w1 conn w2 err w3 r closeErr w4 where
      "upClient_init e u cx (tr, w) = (None, u1, (tr @ ie, w1))"
      "ie = [] \<or> ie = [MutexLock, InitFunc cx (upClient.vppConn u) None, MutexUnlock]"
      "nextClientRequest e cx rq opts w1 = ((conn, None), w2)"
      "up e cx (upClient.vppConn u1) (loadIfIndex u1) (IsClient e (UpClient u1)) w2 = (Some err, w3)"
      "nextClientClose e (Postponed cx) conn opts w3 = ((r, closeErr), w4)"
      "upClient_Request e u cx rq opts (tr, w) =
         ((None, Some (case closeErr of None \<Rightarrow> err
                       | Some ce \<Rightarrow> WithMessage err (''connection closed with error: '' @ Error ce))),
          u1,
          (tr @ ie @ [Capture cx, ClientRequest cx rq opts conn None,
                      Up cx (upClient.vppConn u1) (loadIfIndex u1) (IsClient e (UpClient u1)) (Some err),
                      Resolve (Postponed cx), ClientClose (Postponed cx) conn opts r closeErr,
                      Cancel (Postponed cx)], w4))"
proof -
  obtain ierr u1 ie w1 where
    i: "upClient_init e u cx (tr, w) = (ierr, u1, (tr @ ie, w1))" and
    ie: "ie = [] \<and> ierr = None \<or> ie = [MutexLock, InitFunc cx (upClient.vppConn u) ierr, MutexUnlock]"
    by (cases rule: upClient_init_cases [of u e cx tr w]) auto
  show ?thesis
  proof (cases ierr)
    case (Some err)
    with i ie show ?thesis
      using that(1) upClient_Request_init_failed [of e u cx "(tr, w)" err u1 "(tr @ ie, w1)" rq opts]
      by auto
  next
    case None
    note i' = i [unfolded None]
    from ie None have ie': "ie = [] \<or> ie = [MutexLock, InitFunc cx (upClient.vppConn u) None, MutexUnlock]"
      by auto
    obtain conn rerr w2 where n: "nextClientRequest e cx rq opts w1 = ((conn, rerr), w2)"
      by (cases "nextClientRequest e cx rq opts w1") auto
    show ?thesis
    proof (cases rerr)
      case (Some err)
      show ?thesis
        using that(2) [OF i' ie' n [unfolded Some]]
          upClient_Request_next_failed [OF i' n [unfolded Some]] by simp
    next
      case None
      note n' = n [unfolded None]
      obtain uerr w3 where
        s: "up e cx (upClient.vppConn u1) (loadIfIndex u1) (IsClient e (UpClient u1)) w2 = (uerr, w3)"
        by (cases "up e cx (upClient.vppConn u1) (loadIfIndex u1) (IsClient e (UpClient u1)) w2")
      show ?thesis
      proof (cases uerr)
        case None
        show ?thesis
          using that(3) [OF i' ie' n' s [unfolded None]]
            upClient_Request_ok [OF i' n' s [unfolded None]] by simp
      next
        case (Some err)
        note s' = s [unfolded Some]
        obtain r closeErr w4 where
          c: "nextClientClose e (Postponed cx) conn opts w3 = ((r, closeErr), w4)"
          by (cases "nextClientClose e (Postponed cx) conn opts w3") auto
        show ?thesis
          using that(4) [OF i' ie' n' s' c]
            upClient_Request_rollback [OF i' n' s' upClient_Close_run [OF c]]
          by (simp add: emit_pair)
      qed
    qed
  qed
qed

lemma wireguardPeerServer_Request_cases [case_names next_failed ok rollback]:
  obtains
    conn err w1 where
      "nextServerRequest e cx rq w = ((conn, Some err), w1)"
      "wireguardPeerServer_Request e srv cx rq (tr, w) =
         ((None, Some err), srv, (tr @ [Capture cx, ServerRequest cx rq conn (Some err)], w1))"
  | conn w1 w2 where
      "nextServerRequest e cx rq w = ((conn, None), w1)"
      "createPeer e cx conn (wireguardPeerServer.vppConn srv) (IsClient e (WireguardPeerServer srv)) w1 = (None, w2)"
      "wireguardPeerServer_Request e srv cx rq (tr, w) =
         ((conn, None), srv,
          (tr @ [Capture cx, ServerRequest cx rq conn None,
                 CreatePeer cx conn (wireguardPeerServer.vppConn srv) (IsClient e (WireguardPeerServer srv)) None], w2))"
  | conn w1 err w2 derr w3 r closeErr w4 where
      "nextServerRequest e cx rq w = ((conn, None), w1)"
      "createPeer e cx conn (wireguardPeerServer.vppConn srv) (IsClient e (WireguardPeerServer srv)) w1 = (Some err, w2)"
      "delPeer e (Postponed cx) conn (wireguardPeerServer.vppConn srv) (IsClient e (WireguardPeerServer srv)) w2 = (derr, w3)"
      "nextServerClose e (Postponed cx) conn w3 = ((r, closeErr), w4)"
      "wireguardPeerServer_Request e srv cx rq (tr, w) =
         ((None, Some (case closeErr of None \<Rightarrow> err
                       | Some ce \<Rightarrow> WithMessage err (''connection closed with error: '' @ Error ce))),
          srv,
          (tr @ [Capture cx, ServerRequest cx rq conn None,
                 CreatePeer cx conn (wireguardPeerServer.vppConn srv) (IsClient e (WireguardPeerServer srv)) (Some err),
                 Resolve (Postponed cx),
                 DelPeer (Postponed cx) conn (wireguardPeerServer.vppConn srv) (IsClient e (WireguardPeerServer srv)) derr,
                 ServerClose (Postponed cx) conn r closeErr,
                 Cancel (Postponed cx)], w4))"
proof -
  obtain conn rerr w1 where n: "nextServerRequest e cx rq w = ((conn, rerr), w1)"
    by (cases "nextServerRequest e cx rq w") auto
  show ?thesis
  proof (cases rerr)
    case (Some err)
    show ?thesis
      using that(1) [OF n [unfolded Some]]
        wireguardPeerServer_Request_next_failed [OF n [unfolded Some]] by simp
  next
    case None
    note n' = n [unfolded None]
    obtain perr w2 where
      s: "createPeer e cx conn (wireguardPeerServer.vppConn srv) (IsClient e (WireguardPeerServer srv)) w1 = (perr, w2)"
      by (cases "createPeer e cx conn (wireguardPeerServer.vppConn srv) (IsClient e (WireguardPeerServer srv)) w1")
    show ?thesis
    proof (cases perr)
      case None
      show ?thesis
        using that(2) [OF n' s [unfolded None]]
          wireguardPeerServer_Request_ok [OF n' s [unfolded None]] by simp
    next
      case (Some err)
      note s' = s [unfolded Some]
      obtain derr w3 where
        d: "delPeer e (Postponed cx) conn (wireguardPeerServer.vppConn srv) (IsClient e (WireguardPeerServer srv)) w2 = (derr, w3)"
        by (cases "delPeer e (Postponed cx) conn (wireguardPeerServer.vppConn srv) (IsClient e (WireguardPeerServer srv)) w2")
      obtain r closeErr w4 where
        c: "nextServerClose e (Postponed cx) conn w3 = ((r, closeErr), w4)"
        by (cases "nextServerClose e (Postponed cx) conn w3") auto
      show ?thesis
        using that(3) [OF n' s' d c]
          wireguardPeerServer_Request_rollback [OF n' s' wireguardPeerServer_Close_run [OF d c]]
        by (simp add: emit_pair)
    qed
  qed
qed

lemma up_result_shape:
  "(snd (result_of (upClient_Request e u cx rq opts ([], w))) = None \<and>
      list_ex (continuationGave (fst (result_of (upClient_Request e u cx rq opts ([], w)))))
        (events_of (upClient_Request e u cx rq opts ([], w)))) \<or>
   (fst (result_of (upClient_Request e u cx rq opts ([], w))) = None \<and>
      snd (result_of (upClient_Request e u cx rq opts ([], w))) \<noteq> None)"
  by (cases rule: upClient_Request_cases [of e u cx "[]" w rq opts])
     (auto simp: result_of_def events_of_def)

lemma up_rollback_closes:
  "list_ex setupFailed (events_of (upClient_Request e u cx rq opts ([], w))) \<Longrightarrow>
     list_ex (continuationClosed (Postponed cx)) (events_of (upClient_Request e u cx rq opts ([], w))) \<and>
     fst (result_of (upClient_Request e u cx rq opts ([], w))) = None \<and>
     snd (result_of (upClient_Request e u cx rq opts ([], w))) \<noteq> None"
  by (cases rule: upClient_Request_cases [of e u cx "[]" w rq opts])
     (auto simp: result_of_def events_of_def)

lemma wg_result_shape:
  "(snd (result_of (wireguardPeerServer_Request e srv cx rq ([], w))) = None \<and>
      list_ex (continuationGave (fst (result_of (wireguardPeerServer_Request e srv cx rq ([], w)))))
        (events_of (wireguardPeerServer_Request e srv cx rq ([], w)))) \<or>
   (fst (result_of (wireguardPeerServer_Request e srv cx rq ([], w))) = None \<and>
      snd (result_of (wireguardPeerServer_Request e srv cx rq ([], w))) \<noteq> None)"
  by (cases rule: wireguardPeerServer_Request_cases [of e cx rq w srv "[]"])
     (auto simp: result_of_def events_of_def)

lemma wg_rollback_closes:
  "list_ex setupFailed (events_of (wireguardPeerServer_Request e srv cx rq ([], w))) \<Longrightarrow>
     list_ex (continuationClosed (Postponed cx)) (events_of (wireguardPeerServer_Request e srv cx rq ([], w))) \<and>
     fst (result_of (wireguardPeerServer_Request e srv cx rq ([], w))) = None \<and>
     snd (result_of (wireguardPeerServer_Request e srv cx rq ([], w))) \<noteq> None"
  by (cases rule: wireguardPeerServer_Request_cases [of e cx rq w srv "[]"])
     (auto simp: result_of_def events_of_def)

lemmas run_defs =
  upClient_Request_def upClient_init_def upClient_Close_def
  wireguardPeerServer_Request_def wireguardPeerServer_Close_def
  emit_def invoke_def Let_def ContextWithValues_def Wrapf_def closedWithError_def
  demoEnv_def demoClient_def demoServer_def demoRequest_def nilRequest_def GetConnection_def
  result_of_def events_of_def

section \<open>Establish: failure of the setup action\<close>

text \<open>
  Claim C1. When the continuation succeeded and the setup action (\<^verbatim>\<open>up\<close>, \<^verbatim>\<open>createPeer\<close>) failed
  with \<open>serr\<close>, Request calls the element's own Close on the postponed context, which is not
  the live one, and on the Connection the continuation returned; it cancels the postponed
  context after that and returns no Connection and an error. The error is \<open>serr\<close> when Close
  succeeded; when Close failed with \<open>cerr\<close> it is \<open>serr\<close> wrapped with a message that holds the
  text of \<open>cerr\<close>: the cause is still \<open>serr\<close> and the text holds both.
\<close>

theorem rollback_on_setup_failure:
  "(upClient_init e u cx s = (None, u1, (tr1, w1)) \<and>
    nextClientRequest e cx rq opts w1 = ((conn, None), w2) \<and>
    up e cx (upClient.vppConn u1) (loadIfIndex u1) (IsClient e (UpClient u1)) w2 = (Some serr, w3) \<and>
    upClient_Close e u1 (Postponed cx) conn opts
      (tr1 @ [Capture cx, ClientRequest cx rq opts conn None,
              Up cx (upClient.vppConn u1) (loadIfIndex u1) (IsClient e (UpClient u1)) (Some serr),
              Resolve (Postponed cx)], w3) = ((r, closeErr), u2, s6)
    \<longrightarrow>
    upClient_Request e u cx rq opts s =
      ((None, Some (case closeErr of None \<Rightarrow> serr
                    | Some ce \<Rightarrow> WithMessage serr (''connection closed with error: '' @ Error ce))),
       u2, emit (Cancel (Postponed cx)) s6)) \<and>
   (nextServerRequest e cx rq w = ((conn', None), w1') \<and>
    createPeer e cx conn' (wireguardPeerServer.vppConn srv) (IsClient e (WireguardPeerServer srv)) w1'
      = (Some serr', w2') \<and>
    wireguardPeerServer_Close e srv (Postponed cx) conn'
      (tr @ [Capture cx, ServerRequest cx rq conn' None,
             CreatePeer cx conn' (wireguardPeerServer.vppConn srv) (IsClient e (WireguardPeerServer srv))
               (Some serr'),
             Resolve (Postponed cx)], w2') = ((r', closeErr'), srv1, s5)
    \<longrightarrow>
    wireguardPeerServer_Request e srv cx rq (tr, w) =
      ((None, Some (case closeErr' of None \<Rightarrow> serr'
                    | Some ce \<Rightarrow> WithMessage serr' (''connection closed with error: '' @ Error ce))),
       srv1, emit (Cancel (Postponed cx)) s5)) \<and>
   Postponed cx \<noteq> cx \<and>
   Unwrap (WithMessage serr (''connection closed with error: '' @ Error cerr)) = Some serr \<and>
   Error (WithMessage serr (''connection closed with error: '' @ Error cerr)) =
     ''connection closed with error: '' @ Error cerr @ '': '' @ Error serr"
proof (intro conjI impI)
  assume "upClient_init e u cx s = (None, u1, (tr1, w1)) \<and>
    nextClientRequest e cx rq opts w1 = ((conn, None), w2) \<and>
    up e cx (upClient.vppConn u1) (loadIfIndex u1) (IsClient e (UpClient u1)) w2 = (Some serr, w3) \<and>
    upClient_Close e u1 (Postponed cx) conn opts
      (tr1 @ [Capture cx, ClientRequest cx rq opts conn None,
              Up cx (upClient.vppConn u1) (loadIfIndex u1) (IsClient e (UpClient u1)) (Some serr),
              Resolve (Postponed cx)], w3) = ((r, closeErr), u2, s6)"
  then show "upClient_Request e u cx rq opts s =
      ((None, Some (case closeErr of None \<Rightarrow> serr
                    | Some ce \<Rightarrow> WithMessage serr (''connection closed with error: '' @ Error ce))),
       u2, emit (Cancel (Postponed cx)) s6)"
    by (elim conjE) (rule upClient_Request_rollback, assumption+)
next
  assume "nextServerRequest e cx rq w = ((conn', None), w1') \<and>
    createPeer e cx conn' (wireguardPeerServer.vppConn srv) (IsClient e (WireguardPeerServer srv)) w1'
      = (Some serr', w2') \<and>
    wireguardPeerServer_Close e srv (Postponed cx) conn'
      (tr @ [Capture cx, ServerRequest cx rq conn' None,
             CreatePeer cx conn' (wireguardPeerServer.vppConn srv) (IsClient e (WireguardPeerServer srv))
               (Some serr'),
             Resolve (Postponed cx)], w2') = ((r', closeErr'), srv1, s5)"
  then show "wireguardPeerServer_Request e srv cx rq (tr, w) =
      ((None, Some (case closeErr' of None \<Rightarrow> serr'
                    | Some ce \<Rightarrow> WithMessage serr' (''connection closed with error: '' @ Error ce))),
       srv1, emit (Cancel (Postponed cx)) s5)"
    by (elim conjE) (rule wireguardPeerServer_Request_rollback, assumption+)
next
  show "Postponed cx \<noteq> cx" by (rule Postponed_neq)
qed simp_all

theorem rollback_on_setup_failure_witness:
  "upClient_Request
     (demoEnv 0 None (Some (Err ''up failed'')) (Some (Err ''del failed'')) (Some (Err ''close failed'')))
     demoClient (Live 1) demoRequest [] ([], 0) =
     ((None, Some (WithMessage (Err ''up failed'') ''connection closed with error: close failed'')),
      demoClient\<lparr>inited := 1\<rparr>,
      ([MutexLock, InitFunc (Live 1) 7 None, MutexUnlock, Capture (Live 1),
        ClientRequest (Live 1) demoRequest [] (Some (Connection ''conn-1'')) None,
        Up (Live 1) 7 3 True (Some (Err ''up failed'')),
        Resolve (Postponed (Live 1)),
        ClientClose (Postponed (Live 1)) (Some (Connection ''conn-1'')) [] None (Some (Err ''close failed'')),
        Cancel (Postponed (Live 1))], 4)) \<and>
   wireguardPeerServer_Request
     (demoEnv 0 None (Some (Err ''peer failed'')) (Some (Err ''del failed'')) None)
     demoServer (Live 1) demoRequest ([], 0) =
     ((None, Some (Err ''peer failed'')), demoServer,
      ([Capture (Live 1),
        ServerRequest (Live 1) demoRequest (Some (Connection ''conn-1'')) None,
        CreatePeer (Live 1) (Some (Connection ''conn-1'')) 7 False (Some (Err ''peer failed'')),
        Resolve (Postponed (Live 1)),
        DelPeer (Postponed (Live 1)) (Some (Connection ''conn-1'')) 7 False (Some (Err ''del failed'')),
        ServerClose (Postponed (Live 1)) (Some (Connection ''conn-1'')) (Some Empty) None,
        Cancel (Postponed (Live 1))], 4)) \<and>
   Error (WithMessage (Err ''up failed'') (''connection closed with error: '' @ Error (Err ''close failed'')))
     = ''connection closed with error: close failed: up failed''"
proof -
  let ?e = "demoEnv 0 None (Some (Err ''up failed'')) (Some (Err ''del failed'')) (Some (Err ''close failed''))"
  let ?e' = "demoEnv 0 None (Some (Err ''peer failed'')) (Some (Err ''del failed'')) None"
  let ?u1 = "demoClient\<lparr>inited := 1\<rparr>"
  let ?tr1 = "[MutexLock, InitFunc (Live 1) 7 None, MutexUnlock] :: (nat, nat) event list"
  let ?c = "Some (Connection ''conn-1'')"
  have i: "upClient_init ?e demoClient (Live 1) ([], 0) = (None, ?u1, (?tr1, 1))"
    by (simp add: upClient_init_def demoEnv_def demoClient_def emit_def invoke_def)
  have n: "nextClientRequest ?e (Live 1) demoRequest [] 1 = ((?c, None), 2)"
    by (simp add: demoEnv_def demoRequest_def GetConnection_def)
  have s: "up ?e (Live 1) (upClient.vppConn ?u1) (loadIfIndex ?u1) (IsClient ?e (UpClient ?u1)) 2
             = (Some (Err ''up failed''), 3)"
    by (simp add: demoEnv_def)
  have c: "upClient_Close ?e ?u1 (Postponed (Live 1)) ?c []
             (?tr1 @ [Capture (Live 1), ClientRequest (Live 1) demoRequest [] ?c None,
                      Up (Live 1) (upClient.vppConn ?u1) (loadIfIndex ?u1) (IsClient ?e (UpClient ?u1))
                        (Some (Err ''up failed'')),
                      Resolve (Postponed (Live 1))], 3)
           = ((None, Some (Err ''close failed'')), ?u1,
              (?tr1 @ [Capture (Live 1), ClientRequest (Live 1) demoRequest [] ?c None,
                       Up (Live 1) (upClient.vppConn ?u1) (loadIfIndex ?u1) (IsClient ?e (UpClient ?u1))
                         (Some (Err ''up failed'')),
                       Resolve (Postponed (Live 1)),
                       ClientClose (Postponed (Live 1)) ?c [] None (Some (Err ''close failed''))], 4))"
    by (simp add: upClient_Close_def demoEnv_def invoke_def)
  have n': "nextServerRequest ?e' (Live 1) demoRequest 0 = ((?c, None), 1)"
    by (simp add: demoEnv_def demoRequest_def GetConnection_def)
  have s': "createPeer ?e' (Live 1) ?c (wireguardPeerServer.vppConn demoServer)
              (IsClient ?e' (WireguardPeerServer demoServer)) 1 = (Some (Err ''peer failed''), 2)"
    by (simp add: demoEnv_def)
  have c': "wireguardPeerServer_Close ?e' demoServer (Postponed (Live 1)) ?c
              ([] @ [Capture (Live 1), ServerRequest (Live 1) demoRequest ?c None,
                CreatePeer (Live 1) ?c (wireguardPeerServer.vppConn demoServer)
                  (IsClient ?e' (WireguardPeerServer demoServer)) (Some (Err ''peer failed'')),
                Resolve (Postponed (Live 1))], 2)
            = ((Some Empty, None), demoServer,
               ([Capture (Live 1), ServerRequest (Live 1) demoRequest ?c None,
                 CreatePeer (Live 1) ?c (wireguardPeerServer.vppConn demoServer)
                   (IsClient ?e' (WireguardPeerServer demoServer)) (Some (Err ''peer failed'')),
                 Resolve (Postponed (Live 1)),
                 DelPeer (Postponed (Live 1)) ?c (wireguardPeerServer.vppConn demoServer)
                   (IsClient ?e' (WireguardPeerServer demoServer)) (Some (Err ''del failed'')),
                 ServerClose (Postponed (Live 1)) ?c (Some Empty) None], 4))"
    by (simp add: wireguardPeerServer_Close_def demoEnv_def invoke_def)
  have a: "upClient_Request ?e demoClient (Live 1) demoRequest [] ([], 0) =
      ((None, Some (case Some (Err ''close failed'') of None \<Rightarrow> Err ''up failed''
                    | Some ce \<Rightarrow> WithMessage (Err ''up failed'') (''connection closed with error: '' @ Error ce))),
       ?u1, emit (Cancel (Postponed (Live 1)))
              (?tr1 @ [Capture (Live 1), ClientRequest (Live 1) demoRequest [] ?c None,
                       Up (Live 1) (upClient.vppConn ?u1) (loadIfIndex ?u1) (IsClient ?e (UpClient ?u1))
                         (Some (Err ''up failed'')),
                       Resolve (Postponed (Live 1)),
                       ClientClose (Postponed (Live 1)) ?c [] None (Some (Err ''close failed''))], 4))"
    using rollback_on_setup_failure [THEN conjunct1, rule_format, OF conjI [OF i conjI [OF n conjI [OF s c]]]] .
  have b: "wireguardPeerServer_Request ?e' demoServer (Live 1) demoRequest ([], 0) =
      ((None, Some (case None of None \<Rightarrow> Err ''peer failed''
                    | Some ce \<Rightarrow> WithMessage (Err ''peer failed'') (''connection closed with error: '' @ Error ce))),
       demoServer, emit (Cancel (Postponed (Live 1)))
               ([Capture (Live 1), ServerRequest (Live 1) demoRequest ?c None,
                 CreatePeer (Live 1) ?c (wireguardPeerServer.vppConn demoServer)
                   (IsClient ?e' (WireguardPeerServer demoServer)) (Some (Err ''peer failed'')),
                 Resolve (Postponed (Live 1)),
                 DelPeer (Postponed (Live 1)) ?c (wireguardPeerServer.vppConn demoServer)
                   (IsClient ?e' (WireguardPeerServer demoServer)) (Some (Err ''del failed'')),
                 ServerClose (Postponed (Live 1)) ?c (Some Empty) None], 4))"
    using rollback_on_setup_failure [THEN conjunct2, THEN conjunct1, rule_format,
        OF conjI [OF n' conjI [OF s' c']]] .
  show ?thesis
    unfolding a b by (simp add: emit_def demoEnv_def demoClient_def demoServer_def)
qed

section \<open>Establish: when the postponed context is captured\<close>

text \<open>
  Claim C2, as the code has it. \<^verbatim>\<open>wireguardPeerServer.Request\<close> captures the postponed context
  first and calls the continuation next: no call that can fail comes before the capture.
  \<^verbatim>\<open>upClient.Request\<close> runs the guarded initialization \<^verbatim>\<open>u.init\<close> first. When \<^verbatim>\<open>init\<close> fails,
  Request returns in the state \<^verbatim>\<open>init\<close> left, without a capture. When \<^verbatim>\<open>init\<close> succeeds, the
  events of \<^verbatim>\<open>init\<close> (none on a set latch, else the lock, \<^verbatim>\<open>initFunc\<close> and the unlock) are
  followed by the capture and then by the continuation's Request. So \<^verbatim>\<open>initFunc\<close> is the one
  call that can fail before the capture; every other call that can fail comes after it.
\<close>

theorem capture_before_continuation:
  "captured_first cx (events_of (wireguardPeerServer_Request e srv cx rq ([], w))) \<and>
   take 2 (events_of (wireguardPeerServer_Request e srv cx rq ([], w))) =
     [Capture cx,
      ServerRequest cx rq (fst (fst (nextServerRequest e cx rq w)))
                          (snd (fst (nextServerRequest e cx rq w)))] \<and>
   only_init_before_capture cx (events_of (upClient_Request e u cx rq opts ([], w))) \<and>
   (upClient_init e u cx ([], w) = (Some err, u1, (tr1, w1)) \<longrightarrow>
      upClient_Request e u cx rq opts ([], w) = ((None, Some err), u1, (tr1, w1)) \<and>
      tr1 = [MutexLock, InitFunc cx (upClient.vppConn u) (Some err), MutexUnlock] \<and>
      list_all (\<lambda>ev. \<not> isCapture cx ev) tr1) \<and>
   (upClient_init e u cx ([], w) = (None, u2, (tr2, w2)) \<longrightarrow>
      tr2 = (if 0 < inited u then []
             else [MutexLock, InitFunc cx (upClient.vppConn u) None, MutexUnlock]) \<and>
      take (length tr2 + 2) (events_of (upClient_Request e u cx rq opts ([], w))) =
        tr2 @ [Capture cx,
               ClientRequest cx rq opts (fst (fst (nextClientRequest e cx rq opts w2)))
                                        (snd (fst (nextClientRequest e cx rq opts w2)))])"
proof (intro conjI impI)
  show "captured_first cx (events_of (wireguardPeerServer_Request e srv cx rq ([], w)))"
    by (cases rule: wireguardPeerServer_Request_cases [of e cx rq w srv "[]"])
       (simp_all add: events_of_def captured_first_def before_capture_def)
  show "take 2 (events_of (wireguardPeerServer_Request e srv cx rq ([], w))) =
     [Capture cx,
      ServerRequest cx rq (fst (fst (nextServerRequest e cx rq w)))
                          (snd (fst (nextServerRequest e cx rq w)))]"
    by (cases rule: wireguardPeerServer_Request_cases [of e cx rq w srv "[]"])
       (simp_all add: events_of_def)
  show "only_init_before_capture cx (events_of (upClient_Request e u cx rq opts ([], w)))"
    by (cases rule: upClient_Request_cases [of e u cx "[]" w rq opts])
       (auto simp: events_of_def only_init_before_capture_def before_capture_def)
next
  assume a: "upClient_init e u cx ([], w) = (Some err, u1, (tr1, w1))"
  then show "upClient_Request e u cx rq opts ([], w) = ((None, Some err), u1, (tr1, w1))"
    by (rule upClient_Request_init_failed)
  from upClient_init_error [OF a]
  show t: "tr1 = [MutexLock, InitFunc cx (upClient.vppConn u) (Some err), MutexUnlock]"
    by simp
  show "list_all (\<lambda>ev. \<not> isCapture cx ev) tr1"
    unfolding t by simp
next
  assume a: "upClient_init e u cx ([], w) = (None, u2, (tr2, w2))"
  show t: "tr2 = (if 0 < inited u then []
             else [MutexLock, InitFunc cx (upClient.vppConn u) None, MutexUnlock])"
    using a by (cases rule: upClient_init_cases [of u e cx "[]" w]) auto
  show "take (length tr2 + 2) (events_of (upClient_Request e u cx rq opts ([], w))) =
        tr2 @ [Capture cx,
               ClientRequest cx rq opts (fst (fst (nextClientRequest e cx rq opts w2)))
                                        (snd (fst (nextClientRequest e cx rq opts w2)))]"
    using a
    by (cases rule: upClient_Request_cases [of e u cx "[]" w rq opts])
       (auto simp: events_of_def)
qed

theorem capture_before_continuation_witness:
  "captured_first (Live 1)
     (events_of (wireguardPeerServer_Request (demoEnv 0 None None None None) demoServer (Live 1)
        demoRequest ([], 0))) \<and>
   take 2 (events_of (wireguardPeerServer_Request (demoEnv 0 None None None None) demoServer (Live 1)
        demoRequest ([], 0))) =
     [Capture (Live 1), ServerRequest (Live 1) demoRequest (Some (Connection ''conn-1'')) None] \<and>
   only_init_before_capture (Live 1)
     (events_of (upClient_Request (demoEnv 0 None None None None) demoClient (Live 1)
        demoRequest [] ([], 0))) \<and>
   upClient_Request (demoEnv 1 None None None None) demoClient (Live 1) demoRequest [] ([], 0) =
     ((None, Some (Err ''vpp not ready'')), demoClient,
      ([MutexLock, InitFunc (Live 1) 7 (Some (Err ''vpp not ready'')), MutexUnlock], 1)) \<and>
   take 5 (events_of (upClient_Request (demoEnv 0 None None None None) demoClient (Live 1)
        demoRequest [] ([], 0))) =
     [MutexLock, InitFunc (Live 1) 7 None, MutexUnlock, Capture (Live 1),
      ClientRequest (Live 1) demoRequest [] (Some (Connection ''conn-1'')) None]"
proof -
  let ?ok = "demoEnv 0 None None None None"
  let ?bad = "demoEnv 1 None None None None"
  have i: "upClient_init ?ok demoClient (Live 1) ([], 0) =
             (None, demoClient\<lparr>inited := 1\<rparr>, ([MutexLock, InitFunc (Live 1) 7 None, MutexUnlock], 1))"
    by (simp add: upClient_init_def demoEnv_def demoClient_def emit_def invoke_def)
  have j: "upClient_init ?bad demoClient (Live 1) ([], 0) =
             (Some (Err ''vpp not ready''), demoClient,
              ([MutexLock, InitFunc (Live 1) 7 (Some (Err ''vpp not ready'')), MutexUnlock], 1))"
    by (simp add: upClient_init_def demoEnv_def demoClient_def emit_def invoke_def)
  note t = capture_before_continuation [where cx = "Live 1" and e = ?ok and srv = demoServer
      and rq = demoRequest and w = 0 and u = demoClient and opts = "[]"]
  note t' = capture_before_continuation [where cx = "Live 1" and e = ?bad and srv = demoServer
      and rq = demoRequest and w = 0 and u = demoClient and opts = "[]"]
  note c1 = t [THEN conjunct1]
  note c2 = t [THEN conjunct2, THEN conjunct1]
  note c3 = t [THEN conjunct2, THEN conjunct2, THEN conjunct1]
  note c4 = t' [THEN conjunct2, THEN conjunct2, THEN conjunct2, THEN conjunct1, rule_format,
      OF j, THEN conjunct1]
  note c5 = t [THEN conjunct2, THEN conjunct2, THEN conjunct2, THEN conjunct2, rule_format,
      OF i, THEN conjunct2]
  have n: "nextClientRequest ?ok (Live 1) demoRequest [] 1 = ((Some (Connection ''conn-1''), None), 2)"
    by (simp add: demoEnv_def demoRequest_def GetConnection_def)
  have n': "nextServerRequest ?ok (Live 1) demoRequest 0 = ((Some (Connection ''conn-1''), None), 1)"
    by (simp add: demoEnv_def demoRequest_def GetConnection_def)
  show ?thesis
    using c1 c2 [unfolded n'] c3 c4 c5 [unfolded n] by (simp add: eval_nat_numeral)
qed

text \<open>
  The claim as it is written fails on \<^verbatim>\<open>upClient.Request\<close>: on an element that is not yet
  initialized, \<^verbatim>\<open>initFunc\<close> is called before the capture.
\<close>

theorem capture_first_counterexample:
  "\<not> captured_first (Live 1)
       (events_of (upClient_Request (demoEnv 0 None None None None) demoClient (Live 1)
          demoRequest [] ([], 0)))"
  by (simp add: run_defs captured_first_def before_capture_def)

section \<open>Guarded initialization\<close>

text \<open>
  Claim C3. On an element whose latch is set, any sequence of \<^verbatim>\<open>init\<close> calls returns \<^verbatim>\<open>nil\<close>
  each time and changes nothing: no event (so no \<^verbatim>\<open>initFunc\<close>), the same world, the same
  element, the latch still set. On an element whose latch is unset, a call whose \<^verbatim>\<open>initFunc\<close>
  succeeds sets the latch to 1, and the calls after it are of the first kind; a call whose
  \<^verbatim>\<open>initFunc\<close> fails returns that error and leaves the element as it was, so the sequence
  goes on from an unset latch and the next call runs \<^verbatim>\<open>initFunc\<close> again.
\<close>

theorem init_latch:
  "(0 < inited u \<longrightarrow> init_calls e u cxs s = (replicate (length cxs) None, u, s)) \<and>
   (inited u = 0 \<and> initFunc e cx (upClient.vppConn u) w = (None, w1) \<longrightarrow>
      0 < inited (u\<lparr>inited := 1\<rparr>) \<and>
      init_calls e u (cx # cxs) (tr, w) =
        (None # replicate (length cxs) None, u\<lparr>inited := 1\<rparr>,
         (tr @ [MutexLock, InitFunc cx (upClient.vppConn u) None, MutexUnlock], w1))) \<and>
   (inited u = 0 \<and> initFunc e cx (upClient.vppConn u) w = (Some err, w1) \<longrightarrow>
      upClient_init e u cx (tr, w) =
        (Some err, u, (tr @ [MutexLock, InitFunc cx (upClient.vppConn u) (Some err), MutexUnlock], w1))) \<and>
   (inited u = 0 \<and> initFunc e cx (upClient.vppConn u) w = (Some err, w1) \<and>
    initFunc e cx' (upClient.vppConn u) w1 = (err', w2) \<longrightarrow>
      init_calls e u [cx, cx'] (tr, w) =
        ([Some err, err'], (if err' = None then u\<lparr>inited := 1\<rparr> else u),
         (tr @ [MutexLock, InitFunc cx (upClient.vppConn u) (Some err), MutexUnlock,
                MutexLock, InitFunc cx' (upClient.vppConn u) err', MutexUnlock], w2))) \<and>
   (inited u = 0 \<and> initFunc e cx (upClient.vppConn u) w = (Some err, w1) \<longrightarrow>
      init_calls e u (cx # cxs) (tr, w) =
        (case init_calls e u cxs
                (tr @ [MutexLock, InitFunc cx (upClient.vppConn u) (Some err), MutexUnlock], w1) of
           (errs, u', s') \<Rightarrow> (Some err # errs, u', s')))"
proof (intro conjI impI)
  assume "0 < inited u"
  then show "init_calls e u cxs s = (replicate (length cxs) None, u, s)"
    by (rule init_calls_inited)
next
  show "0 < inited (u\<lparr>inited := 1\<rparr>)" by simp
next
  assume a: "inited u = 0 \<and> initFunc e cx (upClient.vppConn u) w = (None, w1)"
  have "0 < inited (u\<lparr>inited := 1\<rparr>)" by simp
  then show "init_calls e u (cx # cxs) (tr, w) =
        (None # replicate (length cxs) None, u\<lparr>inited := 1\<rparr>,
         (tr @ [MutexLock, InitFunc cx (upClient.vppConn u) None, MutexUnlock], w1))"
    using a by (simp add: upClient_init_run init_calls_inited)
next
  assume a: "inited u = 0 \<and> initFunc e cx (upClient.vppConn u) w = (Some err, w1)"
  then show "upClient_init e u cx (tr, w) =
        (Some err, u, (tr @ [MutexLock, InitFunc cx (upClient.vppConn u) (Some err), MutexUnlock], w1))"
    by (simp add: upClient_init_run)
next
  assume a: "inited u = 0 \<and> initFunc e cx (upClient.vppConn u) w = (Some err, w1) \<and>
    initFunc e cx' (upClient.vppConn u) w1 = (err', w2)"
  then show "init_calls e u [cx, cx'] (tr, w) =
        ([Some err, err'], (if err' = None then u\<lparr>inited := 1\<rparr> else u),
         (tr @ [MutexLock, InitFunc cx (upClient.vppConn u) (Some err), MutexUnlock,
                MutexLock, InitFunc cx' (upClient.vppConn u) err', MutexUnlock], w2))"
    by (simp add: upClient_init_run)
next
  assume a: "inited u = 0 \<and> initFunc e cx (upClient.vppConn u) w = (Some err, w1)"
  then show "init_calls e u (cx # cxs) (tr, w) =
        (case init_calls e u cxs
                (tr @ [MutexLock, InitFunc cx (upClient.vppConn u) (Some err), MutexUnlock], w1) of
           (errs, u', s') \<Rightarrow> (Some err # errs, u', s'))"
    by (simp add: upClient_init_run)
qed

theorem init_latch_witness:
  "init_calls (demoEnv 1 None None None None) demoClient [Live 1, Live 2] ([], 0) =
     ([Some (Err ''vpp not ready''), None], demoClient\<lparr>inited := 1\<rparr>,
      ([MutexLock, InitFunc (Live 1) 7 (Some (Err ''vpp not ready'')), MutexUnlock,
        MutexLock, InitFunc (Live 2) 7 None, MutexUnlock], 2)) \<and>
   init_calls (demoEnv 1 None None None None) (demoClient\<lparr>inited := 1\<rparr>) [Live 3, Live 4, Live 5]
       ([MutexLock, InitFunc (Live 1) 7 (Some (Err ''vpp not ready'')), MutexUnlock,
         MutexLock, InitFunc (Live 2) 7 None, MutexUnlock], 2) =
     ([None, None, None], demoClient\<lparr>inited := 1\<rparr>,
      ([MutexLock, InitFunc (Live 1) 7 (Some (Err ''vpp not ready'')), MutexUnlock,
        MutexLock, InitFunc (Live 2) 7 None, MutexUnlock], 2)) \<and>
   init_calls (demoEnv 0 None None None None) demoClient [Live 1, Live 2, Live 3] ([], 0) =
     ([None, None, None], demoClient\<lparr>inited := 1\<rparr>,
      ([MutexLock, InitFunc (Live 1) 7 None, MutexUnlock], 1)) \<and>
   upClient_init (demoEnv 1 None None None None) demoClient (Live 1) ([], 0) =
     (Some (Err ''vpp not ready''), demoClient,
      ([MutexLock, InitFunc (Live 1) 7 (Some (Err ''vpp not ready'')), MutexUnlock], 1))"
proof -
  let ?e = "demoEnv 1 None None None None"
  let ?ok = "demoEnv 0 None None None None"
  let ?u1 = "demoClient\<lparr>inited := 1\<rparr>"
  have z: "inited demoClient = 0" by (simp add: demoClient_def)
  have p: "0 < inited ?u1" by simp
  have f1: "initFunc ?e (Live 1) (upClient.vppConn demoClient) 0 = (Some (Err ''vpp not ready''), 1)"
    by (simp add: demoEnv_def)
  have f2: "initFunc ?e (Live 2) (upClient.vppConn demoClient) 1 = (None, 2)"
    by (simp add: demoEnv_def)
  have g1: "initFunc ?ok (Live 1) (upClient.vppConn demoClient) 0 = (None, 1)"
    by (simp add: demoEnv_def)
  have v: "upClient.vppConn demoClient = 7" by (simp add: demoClient_def)
  note a = init_latch [THEN conjunct2, THEN conjunct2, THEN conjunct2, THEN conjunct1, rule_format,
      OF conjI [OF z conjI [OF f1 f2]], of "[]"]
  note b = init_latch [THEN conjunct1, rule_format, OF p, of ?e "[Live 3, Live 4, Live 5]"]
  note c = init_latch [THEN conjunct2, THEN conjunct1, rule_format, OF conjI [OF z g1],
      THEN conjunct2, of "[Live 2, Live 3]" "[]"]
  note d = init_latch [THEN conjunct2, THEN conjunct2, THEN conjunct1, rule_format,
      OF conjI [OF z f1], of "[]"]
  show ?thesis
    using a b c d by (simp add: v)
qed

section \<open>Establish: what is returned\<close>

text \<open>
  Claim C4, as the code has it. A Request returns either the Connection that the
  continuation returned, with no error, or no Connection and an error; never a Connection
  and an error. The Connection of the first case is the continuation's, so it is \<^verbatim>\<open>nil\<close> when
  the continuation returned \<^verbatim>\<open>(nil, nil)\<close>. Where the continuation succeeded and the setup
  action failed, the calls after the failed setup action are, in this order, the resolver of
  the postponed context, the element's own Close on the postponed context and on the
  Connection of the continuation (for \<^verbatim>\<open>wireguardPeerServer\<close>: \<^verbatim>\<open>delPeer\<close>, then the
  continuation's Close) and the cancel; then Request returns no Connection and an error.
  Where the setup action succeeded, it is the last call and Request returns the
  continuation's Connection.
\<close>

theorem result_never_both:
  "established_or_failed (result_of (upClient_Request e u cx rq opts ([], w)))
     (events_of (upClient_Request e u cx rq opts ([], w))) \<and>
   rolled_back cx (result_of (upClient_Request e u cx rq opts ([], w)))
     (events_of (upClient_Request e u cx rq opts ([], w))) \<and>
   established_or_failed (result_of (wireguardPeerServer_Request e srv cx rq ([], w)))
     (events_of (wireguardPeerServer_Request e srv cx rq ([], w))) \<and>
   rolled_back cx (result_of (wireguardPeerServer_Request e srv cx rq ([], w)))
     (events_of (wireguardPeerServer_Request e srv cx rq ([], w))) \<and>
   (upClient_init e u cx ([], w) = (None, u1, (tr1, w1)) \<and>
    nextClientRequest e cx rq opts w1 = ((conn, None), w2) \<and>
    up e cx (upClient.vppConn u1) (loadIfIndex u1) (IsClient e (UpClient u1)) w2 = (Some serr, w3) \<and>
    nextClientClose e (Postponed cx) conn opts w3 = ((r, cerr), w4) \<longrightarrow>
      upClient_Request e u cx rq opts ([], w) =
        ((None, Some (case cerr of None \<Rightarrow> serr
                      | Some ce \<Rightarrow> WithMessage serr (''connection closed with error: '' @ Error ce))),
         u1,
         (tr1 @ [Capture cx, ClientRequest cx rq opts conn None,
                 Up cx (upClient.vppConn u1) (loadIfIndex u1) (IsClient e (UpClient u1)) (Some serr),
                 Resolve (Postponed cx), ClientClose (Postponed cx) conn opts r cerr,
                 Cancel (Postponed cx)], w4))) \<and>
   (upClient_init e u cx ([], w) = (None, u1, (tr1, w1)) \<and>
    nextClientRequest e cx rq opts w1 = ((conn, None), w2) \<and>
    up e cx (upClient.vppConn u1) (loadIfIndex u1) (IsClient e (UpClient u1)) w2 = (None, w3) \<longrightarrow>
      upClient_Request e u cx rq opts ([], w) =
        ((conn, None), u1,
         (tr1 @ [Capture cx, ClientRequest cx rq opts conn None,
                 Up cx (upClient.vppConn u1) (loadIfIndex u1) (IsClient e (UpClient u1)) None], w3))) \<and>
   (nextServerRequest e cx rq w = ((conn', None), w1') \<and>
    createPeer e cx conn' (wireguardPeerServer.vppConn srv) (IsClient e (WireguardPeerServer srv)) w1'
      = (Some serr', w2') \<and>
    delPeer e (Postponed cx) conn' (wireguardPeerServer.vppConn srv)
      (IsClient e (WireguardPeerServer srv)) w2' = (derr, w3') \<and>
    nextServerClose e (Postponed cx) conn' w3' = ((r', cerr'), w4') \<longrightarrow>
      wireguardPeerServer_Request e srv cx rq ([], w) =
        ((None, Some (case cerr' of None \<Rightarrow> serr'
                      | Some ce \<Rightarrow> WithMessage serr' (''connection closed with error: '' @ Error ce))),
         srv,
         ([Capture cx, ServerRequest cx rq conn' None,
           CreatePeer cx conn' (wireguardPeerServer.vppConn srv) (IsClient e (WireguardPeerServer srv))
             (Some serr'),
           Resolve (Postponed cx),
           DelPeer (Postponed cx) conn' (wireguardPeerServer.vppConn srv)
             (IsClient e (WireguardPeerServer srv)) derr,
           ServerClose (Postponed cx) conn' r' cerr',
           Cancel (Postponed cx)], w4'))) \<and>
   (nextServerRequest e cx rq w = ((conn', None), w1') \<and>
    createPeer e cx conn' (wireguardPeerServer.vppConn srv) (IsClient e (WireguardPeerServer srv)) w1'
      = (None, w2') \<longrightarrow>
      wireguardPeerServer_Request e srv cx rq ([], w) =
        ((conn', None), srv,
         ([Capture cx, ServerRequest cx rq conn' None,
           CreatePeer cx conn' (wireguardPeerServer.vppConn srv) (IsClient e (WireguardPeerServer srv))
             None], w2')))"
proof (intro conjI impI)
  show "established_or_failed (result_of (upClient_Request e u cx rq opts ([], w)))
     (events_of (upClient_Request e u cx rq opts ([], w)))"
    unfolding established_or_failed_def by (rule up_result_shape)
  show "rolled_back cx (result_of (upClient_Request e u cx rq opts ([], w)))
     (events_of (upClient_Request e u cx rq opts ([], w)))"
    unfolding rolled_back_def using up_rollback_closes [of e u cx rq opts w] by simp
  show "established_or_failed (result_of (wireguardPeerServer_Request e srv cx rq ([], w)))
     (events_of (wireguardPeerServer_Request e srv cx rq ([], w)))"
    unfolding established_or_failed_def by (rule wg_result_shape)
  show "rolled_back cx (result_of (wireguardPeerServer_Request e srv cx rq ([], w)))
     (events_of (wireguardPeerServer_Request e srv cx rq ([], w)))"
    unfolding rolled_back_def using wg_rollback_closes [of e srv cx rq w] by simp
next
  assume a: "upClient_init e u cx ([], w) = (None, u1, (tr1, w1)) \<and>
    nextClientRequest e cx rq opts w1 = ((conn, None), w2) \<and>
    up e cx (upClient.vppConn u1) (loadIfIndex u1) (IsClient e (UpClient u1)) w2 = (Some serr, w3) \<and>
    nextClientClose e (Postponed cx) conn opts w3 = ((r, cerr), w4)"
  then have i: "upClient_init e u cx ([], w) = (None, u1, (tr1, w1))"
    and n: "nextClientRequest e cx rq opts w1 = ((conn, None), w2)"
    and s: "up e cx (upClient.vppConn u1) (loadIfIndex u1) (IsClient e (UpClient u1)) w2 = (Some serr, w3)"
    and c: "nextClientClose e (Postponed cx) conn opts w3 = ((r, cerr), w4)"
    by simp_all
  show "upClient_Request e u cx rq opts ([], w) =
        ((None, Some (case cerr of None \<Rightarrow> serr
                      | Some ce \<Rightarrow> WithMessage serr (''connection closed with error: '' @ Error ce))),
         u1,
         (tr1 @ [Capture cx, ClientRequest cx rq opts conn None,
                 Up cx (upClient.vppConn u1) (loadIfIndex u1) (IsClient e (UpClient u1)) (Some serr),
                 Resolve (Postponed cx), ClientClose (Postponed cx) conn opts r cerr,
                 Cancel (Postponed cx)], w4))"
    using upClient_Request_rollback [OF i n s upClient_Close_run [OF c]]
    by (simp add: emit_pair)
next
  assume "upClient_init e u cx ([], w) = (None, u1, (tr1, w1)) \<and>
    nextClientRequest e cx rq opts w1 = ((conn, None), w2) \<and>
    up e cx (upClient.vppConn u1) (loadIfIndex u1) (IsClient e (UpClient u1)) w2 = (None, w3)"
  then show "upClient_Request e u cx rq opts ([], w) =
        ((conn, None), u1,
         (tr1 @ [Capture cx, ClientRequest cx rq opts conn None,
                 Up cx (upClient.vppConn u1) (loadIfIndex u1) (IsClient e (UpClient u1)) None], w3))"
    by (elim conjE) (rule upClient_Request_ok, assumption+)
next
  assume a: "nextServerRequest e cx rq w = ((conn', None), w1') \<and>
    createPeer e cx conn' (wireguardPeerServer.vppConn srv) (IsClient e (WireguardPeerServer srv)) w1'
      = (Some serr', w2') \<and>
    delPeer e (Postponed cx) conn' (wireguardPeerServer.vppConn srv)
      (IsClient e (WireguardPeerServer srv)) w2' = (derr, w3') \<and>
    nextServerClose e (Postponed cx) conn' w3' = ((r', cerr'), w4')"
  then have n: "nextServerRequest e cx rq w = ((conn', None), w1')"
    and s: "createPeer e cx conn' (wireguardPeerServer.vppConn srv)
              (IsClient e (WireguardPeerServer srv)) w1' = (Some serr', w2')"
    and d: "delPeer e (Postponed cx) conn' (wireguardPeerServer.vppConn srv)
              (IsClient e (WireguardPeerServer srv)) w2' = (derr, w3')"
    and c: "nextServerClose e (Postponed cx) conn' w3' = ((r', cerr'), w4')"
    by simp_all
  show "wireguardPeerServer_Request e srv cx rq ([], w) =
        ((None, Some (case cerr' of None \<Rightarrow> serr'
                      | Some ce \<Rightarrow> WithMessage serr' (''connection closed with error: '' @ Error ce))),
         srv,
         ([Capture cx, ServerRequest cx rq conn' None,
           CreatePeer cx conn' (wireguardPeerServer.vppConn srv) (IsClient e (WireguardPeerServer srv))
             (Some serr'),
           Resolve (Postponed cx),
           DelPeer (Postponed cx) conn' (wireguardPeerServer.vppConn srv)
             (IsClient e (WireguardPeerServer srv)) derr,
           ServerClose (Postponed cx) conn' r' cerr',
           Cancel (Postponed cx)], w4'))"
    using wireguardPeerServer_Request_rollback [OF n s wireguardPeerServer_Close_run [OF d c], of "[]"]
    by (simp add: emit_pair)
next
  assume "nextServerRequest e cx rq w = ((conn', None), w1') \<and>
    createPeer e cx conn' (wireguardPeerServer.vppConn srv) (IsClient e (WireguardPeerServer srv)) w1'
      = (None, w2')"
  then show "wireguardPeerServer_Request e srv cx rq ([], w) =
        ((conn', None), srv,
         ([Capture cx, ServerRequest cx rq conn' None,
           CreatePeer cx conn' (wireguardPeerServer.vppConn srv) (IsClient e (WireguardPeerServer srv))
             None], w2'))"
    using wireguardPeerServer_Request_ok [of e cx rq w conn' w1' srv w2' "[]"] by simp
qed

theorem result_never_both_witness:
  "upClient_Request (demoEnv 0 None (Some (Err ''up failed'')) None None) demoClient
     (Live 1) demoRequest [] ([], 0) =
     ((None, Some (Err ''up failed'')), demoClient\<lparr>inited := 1\<rparr>,
      ([MutexLock, InitFunc (Live 1) 7 None, MutexUnlock, Capture (Live 1),
        ClientRequest (Live 1) demoRequest [] (Some (Connection ''conn-1'')) None,
        Up (Live 1) 7 3 True (Some (Err ''up failed'')),
        Resolve (Postponed (Live 1)),
        ClientClose (Postponed (Live 1)) (Some (Connection ''conn-1'')) [] (Some Empty) None,
        Cancel (Postponed (Live 1))], 4)) \<and>
   wireguardPeerServer_Request (demoEnv 0 None (Some (Err ''up failed'')) (Some (Err ''del failed'')) None)
     demoServer (Live 1) demoRequest ([], 0) =
     ((None, Some (Err ''up failed'')), demoServer,
      ([Capture (Live 1),
        ServerRequest (Live 1) demoRequest (Some (Connection ''conn-1'')) None,
        CreatePeer (Live 1) (Some (Connection ''conn-1'')) 7 False (Some (Err ''up failed'')),
        Resolve (Postponed (Live 1)),
        DelPeer (Postponed (Live 1)) (Some (Connection ''conn-1'')) 7 False (Some (Err ''del failed'')),
        ServerClose (Postponed (Live 1)) (Some (Connection ''conn-1'')) (Some Empty) None,
        Cancel (Postponed (Live 1))], 4)) \<and>
   upClient_Request (demoEnv 0 None None None None) demoClient (Live 1) nilRequest [] ([], 0) =
     ((None, None), demoClient\<lparr>inited := 1\<rparr>,
      ([MutexLock, InitFunc (Live 1) 7 None, MutexUnlock, Capture (Live 1),
        ClientRequest (Live 1) nilRequest [] None None,
        Up (Live 1) 7 3 True None], 3)) \<and>
   established_or_failed
     (result_of (upClient_Request (demoEnv 0 None (Some (Err ''up failed'')) None None) demoClient
        (Live 1) demoRequest [] ([], 0)))
     (events_of (upClient_Request (demoEnv 0 None (Some (Err ''up failed'')) None None) demoClient
        (Live 1) demoRequest [] ([], 0))) \<and>
   rolled_back (Live 1)
     (result_of (upClient_Request (demoEnv 0 None (Some (Err ''up failed'')) None None) demoClient
        (Live 1) demoRequest [] ([], 0)))
     (events_of (upClient_Request (demoEnv 0 None (Some (Err ''up failed'')) None None) demoClient
        (Live 1) demoRequest [] ([], 0)))"
proof -
  let ?e = "demoEnv 0 None (Some (Err ''up failed'')) None None"
  let ?d = "demoEnv 0 None (Some (Err ''up failed'')) (Some (Err ''del failed'')) None"
  let ?ok = "demoEnv 0 None None None None"
  let ?u1 = "demoClient\<lparr>inited := 1\<rparr>"
  let ?tr1 = "[MutexLock, InitFunc (Live 1) 7 None, MutexUnlock] :: (nat, nat) event list"
  let ?c = "Some (Connection ''conn-1'')"
  have i: "upClient_init ?e demoClient (Live 1) ([], 0) = (None, ?u1, (?tr1, 1))"
    by (simp add: upClient_init_def demoEnv_def demoClient_def emit_def invoke_def)
  have n: "nextClientRequest ?e (Live 1) demoRequest [] 1 = ((?c, None), 2)"
    by (simp add: demoEnv_def demoRequest_def GetConnection_def)
  have s: "up ?e (Live 1) (upClient.vppConn ?u1) (loadIfIndex ?u1) (IsClient ?e (UpClient ?u1)) 2
             = (Some (Err ''up failed''), 3)"
    by (simp add: demoEnv_def)
  have c: "nextClientClose ?e (Postponed (Live 1)) ?c [] 3 = ((Some Empty, None), 4)"
    by (simp add: demoEnv_def)
  have n': "nextServerRequest ?d (Live 1) demoRequest 0 = ((?c, None), 1)"
    by (simp add: demoEnv_def demoRequest_def GetConnection_def)
  have s': "createPeer ?d (Live 1) ?c (wireguardPeerServer.vppConn demoServer)
              (IsClient ?d (WireguardPeerServer demoServer)) 1 = (Some (Err ''up failed''), 2)"
    by (simp add: demoEnv_def)
  have d': "delPeer ?d (Postponed (Live 1)) ?c (wireguardPeerServer.vppConn demoServer)
              (IsClient ?d (WireguardPeerServer demoServer)) 2 = (Some (Err ''del failed''), 3)"
    by (simp add: demoEnv_def)
  have c': "nextServerClose ?d (Postponed (Live 1)) ?c 3 = ((Some Empty, None), 4)"
    by (simp add: demoEnv_def)
  have i0: "upClient_init ?ok demoClient (Live 1) ([], 0) = (None, ?u1, (?tr1, 1))"
    by (simp add: upClient_init_def demoEnv_def demoClient_def emit_def invoke_def)
  have n0: "nextClientRequest ?ok (Live 1) nilRequest [] 1 = ((None, None), 2)"
    by (simp add: demoEnv_def nilRequest_def GetConnection_def)
  have s0: "up ?ok (Live 1) (upClient.vppConn ?u1) (loadIfIndex ?u1) (IsClient ?ok (UpClient ?u1)) 2
             = (None, 3)"
    by (simp add: demoEnv_def)
  note t = result_never_both [where e = ?e and u = demoClient and cx = "Live 1" and rq = demoRequest
      and opts = "[]" and w = 0 and srv = demoServer]
  note p1 = t [THEN conjunct1]
  note p2 = t [THEN conjunct2, THEN conjunct1]
  note p5 = result_never_both [THEN conjunct2, THEN conjunct2, THEN conjunct2, THEN conjunct2,
      THEN conjunct1, rule_format, OF conjI [OF i conjI [OF n conjI [OF s c]]]]
  note p6 = result_never_both [THEN conjunct2, THEN conjunct2, THEN conjunct2, THEN conjunct2,
      THEN conjunct2, THEN conjunct1, rule_format, OF conjI [OF i0 conjI [OF n0 s0]]]
  note p7 = result_never_both [THEN conjunct2, THEN conjunct2, THEN conjunct2, THEN conjunct2,
      THEN conjunct2, THEN conjunct2, THEN conjunct1, rule_format,
      OF conjI [OF n' conjI [OF s' conjI [OF d' c']]]]
  show ?thesis
    using p1 p2 p5 p6 p7 by (simp add: demoEnv_def demoClient_def demoServer_def)
qed

text \<open>
  The claim as it is written fails where the continuation returns \<^verbatim>\<open>(nil, nil)\<close>, as the end
  of a chain does for a request without a Connection: \<^verbatim>\<open>up\<close> succeeds and Request returns
  \<^verbatim>\<open>(nil, nil)\<close>.
\<close>

theorem result_xor_counterexample:
  "\<not> connection_xor_error
       (result_of (upClient_Request (demoEnv 0 None None None None) demoClient (Live 1)
          nilRequest [] ([], 0)))"
  by (simp add: run_defs connection_xor_error_def)

section \<open>Establish: failure of the continuation and of the guarded initialization\<close>

text \<open>
  Claim C5. When the continuation's Request returns an error, Request returns \<^verbatim>\<open>nil\<close> and that
  very error. The continuation's call is the last event of the call: after it the element
  calls neither its setup action nor a Close, and none was called before it (what
  \<^verbatim>\<open>upClient\<close> did before is its \<^verbatim>\<open>init\<close> and the capture).
\<close>

theorem continuation_error_unchanged:
  "(upClient_init e u cx ([], w) = (None, u1, (tr1, w1)) \<and>
    nextClientRequest e cx rq opts w1 = ((conn, Some err), w2) \<longrightarrow>
      upClient_Request e u cx rq opts ([], w) =
        ((None, Some err), u1, (tr1 @ [Capture cx, ClientRequest cx rq opts conn (Some err)], w2)) \<and>
      no_setup_no_close (tr1 @ [Capture cx, ClientRequest cx rq opts conn (Some err)])) \<and>
   (nextServerRequest e cx rq w = ((conn', Some err'), w1') \<longrightarrow>
      wireguardPeerServer_Request e srv cx rq ([], w) =
        ((None, Some err'), srv, ([Capture cx, ServerRequest cx rq conn' (Some err')], w1')) \<and>
      no_setup_no_close ([Capture cx, ServerRequest cx rq conn' (Some err')] :: ('v, 'f) event list))"
proof (intro conjI impI)
  assume a: "upClient_init e u cx ([], w) = (None, u1, (tr1, w1)) \<and>
    nextClientRequest e cx rq opts w1 = ((conn, Some err), w2)"
  then show "upClient_Request e u cx rq opts ([], w) =
        ((None, Some err), u1, (tr1 @ [Capture cx, ClientRequest cx rq opts conn (Some err)], w2))"
    by (elim conjE) (rule upClient_Request_next_failed, assumption+)
  from a have "events_of (upClient_init e u cx ([], w)) = tr1"
    by (simp add: events_of_def)
  then have "no_setup_no_close tr1"
    unfolding upClient_init_events by (auto simp: no_setup_no_close_def)
  then show "no_setup_no_close (tr1 @ [Capture cx, ClientRequest cx rq opts conn (Some err)])"
    by (simp add: no_setup_no_close_def)
next
  assume "nextServerRequest e cx rq w = ((conn', Some err'), w1')"
  then show "wireguardPeerServer_Request e srv cx rq ([], w) =
        ((None, Some err'), srv, ([Capture cx, ServerRequest cx rq conn' (Some err')], w1'))"
    using wireguardPeerServer_Request_next_failed [of e cx rq w conn' err' w1' srv "[]"] by simp
next
  show "no_setup_no_close ([Capture cx, ServerRequest cx rq conn' (Some err')] :: ('v, 'f) event list)"
    by (simp add: no_setup_no_close_def)
qed

theorem continuation_error_unchanged_witness:
  "upClient_Request (demoEnv 0 (Some (Err ''refused'')) None None None) demoClient (Live 1)
     demoRequest [] ([], 0) =
     ((None, Some (Err ''refused'')), demoClient\<lparr>inited := 1\<rparr>,
      ([MutexLock, InitFunc (Live 1) 7 None, MutexUnlock, Capture (Live 1),
        ClientRequest (Live 1) demoRequest [] None (Some (Err ''refused''))], 2)) \<and>
   wireguardPeerServer_Request (demoEnv 0 (Some (Err ''refused'')) None None None) demoServer (Live 1)
     demoRequest ([], 0) =
     ((None, Some (Err ''refused'')), demoServer,
      ([Capture (Live 1), ServerRequest (Live 1) demoRequest None (Some (Err ''refused''))], 1))"
proof -
  let ?e = "demoEnv 0 (Some (Err ''refused'')) None None None"
  have i: "upClient_init ?e demoClient (Live 1) ([], 0) =
             (None, demoClient\<lparr>inited := 1\<rparr>, ([MutexLock, InitFunc (Live 1) 7 None, MutexUnlock], 1))"
    by (simp add: upClient_init_def demoEnv_def demoClient_def emit_def invoke_def)
  have n: "nextClientRequest ?e (Live 1) demoRequest [] 1 = ((None, Some (Err ''refused'')), 2)"
    by (simp add: demoEnv_def)
  have n': "nextServerRequest ?e (Live 1) demoRequest 0 = ((None, Some (Err ''refused'')), 1)"
    by (simp add: demoEnv_def)
  note a = continuation_error_unchanged [THEN conjunct1, rule_format, OF conjI [OF i n], THEN conjunct1]
  note b = continuation_error_unchanged [THEN conjunct2, rule_format, OF n', THEN conjunct1]
  show ?thesis using a b by simp
qed

text \<open>
  Claim C6. When \<^verbatim>\<open>u.init\<close> returns an error, \<^verbatim>\<open>upClient.Request\<close> returns \<^verbatim>\<open>nil\<close> and that error
  in the state \<^verbatim>\<open>init\<close> left: the events of the call are the lock, the failed \<^verbatim>\<open>initFunc\<close> and
  the unlock, and no Request of the continuation is among them.
\<close>

theorem init_error_fails_fast:
  "upClient_init e u cx (tr, w) = (Some err, u1, s1) \<Longrightarrow>
     upClient_Request e u cx rq opts (tr, w) = ((None, Some err), u1, s1) \<and>
     fst s1 = tr @ [MutexLock, InitFunc cx (upClient.vppConn u) (Some err), MutexUnlock] \<and>
     list_all (\<lambda>ev. \<not> isContinuationRequest ev)
       [MutexLock, InitFunc cx (upClient.vppConn u) (Some err), MutexUnlock]"
  using upClient_Request_init_failed [of e u cx "(tr, w)" err u1 s1 rq opts]
    upClient_init_error [of e u cx tr w err u1 s1]
  by simp

theorem init_error_fails_fast_witness:
  "upClient_Request (demoEnv 1 None None None None) demoClient (Live 1) demoRequest [] ([], 0) =
     ((None, Some (Err ''vpp not ready'')), demoClient,
      ([MutexLock, InitFunc (Live 1) 7 (Some (Err ''vpp not ready'')), MutexUnlock], 1))"
proof -
  have i: "upClient_init (demoEnv 1 None None None None) demoClient (Live 1) ([], 0) =
             (Some (Err ''vpp not ready''), demoClient,
              ([MutexLock, InitFunc (Live 1) 7 (Some (Err ''vpp not ready'')), MutexUnlock], 1))"
    by (simp add: upClient_init_def demoEnv_def demoClient_def emit_def invoke_def)
  show ?thesis
    using init_error_fails_fast [OF i, of demoRequest "[]"] by simp
qed

section \<open>Teardown\<close>

text \<open>
  Claim C7. \<^verbatim>\<open>wireguardPeerServer.Close\<close> calls \<^verbatim>\<open>delPeer\<close> and then, whatever \<^verbatim>\<open>delPeer\<close> returned,
  the continuation's Close, on the same context and Connection and in the world \<^verbatim>\<open>delPeer\<close>
  left: these two calls, in this order, are the events of the call, the result is the
  continuation's and the world is the one the continuation left. \<^verbatim>\<open>upClient.Close\<close> has no
  local undo: its one call is the continuation's Close, in the world it was given.
\<close>

theorem close_always_delegates:
  "(delPeer e cx conn (wireguardPeerServer.vppConn srv) (IsClient e (WireguardPeerServer srv)) w
      = (derr, w1) \<and>
    nextServerClose e cx conn w1 = ((r, cerr), w2) \<longrightarrow>
      wireguardPeerServer_Close e srv cx conn (tr, w) =
        ((r, cerr), srv,
         (tr @ [DelPeer cx conn (wireguardPeerServer.vppConn srv) (IsClient e (WireguardPeerServer srv)) derr,
                ServerClose cx conn r cerr], w2)) \<and>
      events_of (wireguardPeerServer_Close e srv cx conn (tr, w)) =
        tr @ [DelPeer cx conn (wireguardPeerServer.vppConn srv) (IsClient e (WireguardPeerServer srv)) derr,
              ServerClose cx conn r cerr]) \<and>
   (nextClientClose e cx conn opts w = ((r', cerr'), w1') \<longrightarrow>
      upClient_Close e u cx conn opts (tr, w) =
        ((r', cerr'), u, (tr @ [ClientClose cx conn opts r' cerr'], w1')) \<and>
      events_of (upClient_Close e u cx conn opts (tr, w)) = tr @ [ClientClose cx conn opts r' cerr'])"
proof (intro conjI impI)
  assume a: "delPeer e cx conn (wireguardPeerServer.vppConn srv) (IsClient e (WireguardPeerServer srv)) w
      = (derr, w1) \<and> nextServerClose e cx conn w1 = ((r, cerr), w2)"
  then show full: "wireguardPeerServer_Close e srv cx conn (tr, w) =
           ((r, cerr), srv,
            (tr @ [DelPeer cx conn (wireguardPeerServer.vppConn srv) (IsClient e (WireguardPeerServer srv)) derr,
                   ServerClose cx conn r cerr], w2))"
    by (elim conjE) (rule wireguardPeerServer_Close_run, assumption+)
  then show "events_of (wireguardPeerServer_Close e srv cx conn (tr, w)) =
        tr @ [DelPeer cx conn (wireguardPeerServer.vppConn srv) (IsClient e (WireguardPeerServer srv)) derr,
              ServerClose cx conn r cerr]"
    by (simp add: events_of_def)
next
  assume a: "nextClientClose e cx conn opts w = ((r', cerr'), w1')"
  then show "upClient_Close e u cx conn opts (tr, w) =
        ((r', cerr'), u, (tr @ [ClientClose cx conn opts r' cerr'], w1'))"
    by (rule upClient_Close_run)
  from a show "events_of (upClient_Close e u cx conn opts (tr, w)) = tr @ [ClientClose cx conn opts r' cerr']"
    by (simp add: upClient_Close_run events_of_def)
qed

theorem close_always_delegates_witness:
  "wireguardPeerServer_Close (demoEnv 0 None None (Some (Err ''del failed'')) None) demoServer
     (Live 2) (Some (Connection ''conn-1'')) ([], 0) =
     ((Some Empty, None), demoServer,
      ([DelPeer (Live 2) (Some (Connection ''conn-1'')) 7 False (Some (Err ''del failed'')),
        ServerClose (Live 2) (Some (Connection ''conn-1'')) (Some Empty) None], 2)) \<and>
   upClient_Close (demoEnv 0 None None (Some (Err ''del failed'')) None) demoClient
     (Live 2) (Some (Connection ''conn-1'')) [] ([], 0) =
     ((Some Empty, None), demoClient,
      ([ClientClose (Live 2) (Some (Connection ''conn-1'')) [] (Some Empty) None], 1))"
proof -
  let ?e = "demoEnv 0 None None (Some (Err ''del failed'')) None"
  let ?c = "Some (Connection ''conn-1'')"
  have d: "delPeer ?e (Live 2) ?c (wireguardPeerServer.vppConn demoServer)
             (IsClient ?e (WireguardPeerServer demoServer)) 0 = (Some (Err ''del failed''), 1)"
    by (simp add: demoEnv_def)
  have n: "nextServerClose ?e (Live 2) ?c 1 = ((Some Empty, None), 2)"
    by (simp add: demoEnv_def)
  have n': "nextClientClose ?e (Live 2) ?c [] 0 = ((Some Empty, None), 1)"
    by (simp add: demoEnv_def)
  note a = close_always_delegates [THEN conjunct1, rule_format, OF conjI [OF d n], THEN conjunct1,
      of "[]"]
  note b = close_always_delegates [THEN conjunct2, rule_format, OF n', THEN conjunct1,
      of demoClient "[]"]
  show ?thesis using a b by (simp add: demoEnv_def demoServer_def)
qed

text \<open>
  Claim C8. On one \<^verbatim>\<open>wireguardPeerServer\<close>, the directionality that a Request hands to
  \<^verbatim>\<open>createPeer\<close> (or to \<^verbatim>\<open>delPeer\<close>, when it rolls back) and the one that a Close, on any context,
  Connection and world, hands to \<^verbatim>\<open>delPeer\<close> are equal: both are \<^verbatim>\<open>metadata.IsClient\<close> of the
  element.
\<close>

theorem peer_role_stable:
  "ev1 \<in> set (events_of (wireguardPeerServer_Request e srv cx rq ([], w))) \<Longrightarrow>
   peerRole ev1 = Some b1 \<Longrightarrow>
   ev2 \<in> set (events_of (wireguardPeerServer_Close e srv cx' conn ([], w'))) \<Longrightarrow>
   peerRole ev2 = Some b2 \<Longrightarrow>
   b1 = b2 \<and> b2 = IsClient e (WireguardPeerServer srv)"
  using wg_Request_role [of ev1 e srv cx rq w b1] wg_Close_role [of ev2 e srv cx' conn w' b2]
  by simp

theorem peer_role_stable_witness:
  "CreatePeer (Live 1) (Some (Connection ''conn-1'')) 7 False None
     \<in> set (events_of (wireguardPeerServer_Request (demoEnv 0 None None None None) demoServer (Live 1)
          demoRequest ([], 0))) \<and>
   DelPeer (Live 2) (Some (Connection ''conn-1'')) 7 False None
     \<in> set (events_of (wireguardPeerServer_Close (demoEnv 0 None None None None) demoServer (Live 2)
          (Some (Connection ''conn-1'')) ([], 3))) \<and>
   False = IsClient (demoEnv 0 None None None None) (WireguardPeerServer demoServer)"
proof -
  let ?e = "demoEnv 0 None None None None"
  let ?c = "Some (Connection ''conn-1'')"
  have a: "CreatePeer (Live 1) ?c 7 False None
     \<in> set (events_of (wireguardPeerServer_Request ?e demoServer (Live 1) demoRequest ([], 0)))"
    by (simp add: run_defs)
  have b: "DelPeer (Live 2) ?c 7 False None
     \<in> set (events_of (wireguardPeerServer_Close ?e demoServer (Live 2) ?c ([], 3)))"
    by (simp add: run_defs)
  have p: "peerRole (CreatePeer (Live 1) ?c (7::nat) False None :: (nat, nat) event) = Some False"
    by simp
  have q: "peerRole (DelPeer (Live 2) ?c (7::nat) False None :: (nat, nat) event) = Some False"
    by simp
  from peer_role_stable [OF a p b q] a b show ?thesis by simp
qed

text \<open>
  Claim C9. \<^verbatim>\<open>upClient.Close\<close> returns what the continuation's Close returns on the same
  context, Connection and options, and returns the element as it was; the continuation's
  Close is the one call it makes, and the world is the one that call left.
\<close>

theorem upClient_Close_only_delegates:
  "upClient_Close e u cx conn opts (tr, w) =
     (fst (nextClientClose e cx conn opts w), u,
      (tr @ [ClientClose cx conn opts (fst (fst (nextClientClose e cx conn opts w)))
                                      (snd (fst (nextClientClose e cx conn opts w)))],
       snd (nextClientClose e cx conn opts w)))"
  by (simp add: upClient_Close_def invoke_def split: prod.splits)

theorem upClient_Close_only_delegates_witness:
  "upClient_Close (demoEnv 0 None None None (Some (Err ''close failed''))) (demoClient\<lparr>inited := 1\<rparr>)
     (Live 2) (Some (Connection ''conn-1'')) [] ([], 5) =
     ((None, Some (Err ''close failed'')), demoClient\<lparr>inited := 1\<rparr>,
      ([ClientClose (Live 2) (Some (Connection ''conn-1'')) [] None (Some (Err ''close failed''))], 6))"
  using upClient_Close_only_delegates [of "demoEnv 0 None None None (Some (Err ''close failed''))"
      "demoClient\<lparr>inited := 1\<rparr>" "Live 2" "Some (Connection ''conn-1'')" "[]" "[]" 5]
  by (simp add: demoEnv_def)

text \<open>
  Claim C10. What \<^verbatim>\<open>wireguardPeerServer.Close\<close> returns is what the continuation's Close
  returns in the world \<^verbatim>\<open>delPeer\<close> left. The error of \<^verbatim>\<open>delPeer\<close> is dropped: with a \<^verbatim>\<open>delPeer\<close>
  that returns any other error \<open>derr\<close> and has the same effect, Close returns the same.
\<close>

theorem wireguard_Close_result:
  "result_of (wireguardPeerServer_Close e srv cx conn (tr, w)) =
     fst (nextServerClose e cx conn
            (snd (delPeer e cx conn (wireguardPeerServer.vppConn srv)
                    (IsClient e (WireguardPeerServer srv)) w))) \<and>
   result_of (wireguardPeerServer_Close
                (e\<lparr>delPeer := (\<lambda>c k v b x. (derr, snd (delPeer e c k v b x)))\<rparr>) srv cx conn (tr, w)) =
     result_of (wireguardPeerServer_Close e srv cx conn (tr, w))"
  by (simp add: wireguardPeerServer_Close_def result_of_def invoke_def Let_def split: prod.splits)

theorem wireguard_Close_result_witness:
  "result_of (wireguardPeerServer_Close (demoEnv 0 None None (Some (Err ''del failed'')) None) demoServer
     (Live 2) (Some (Connection ''conn-1'')) ([], 0)) = (Some Empty, None) \<and>
   result_of (wireguardPeerServer_Close (demoEnv 0 None None None None) demoServer
     (Live 2) (Some (Connection ''conn-1'')) ([], 0)) = (Some Empty, None)"
  using wireguard_Close_result [of "demoEnv 0 None None (Some (Err ''del failed'')) None" demoServer
      "Live 2" "Some (Connection ''conn-1'')" "[]" 0 None]
    wireguard_Close_result [of "demoEnv 0 None None None None" demoServer
      "Live 2" "Some (Connection ''conn-1'')" "[]" 0 None]
  by (simp add: demoEnv_def)

end
